theory Spec2Isabelle
  imports Main "HOL-Library.Sublist"
begin

section \<open>Replication of a BigQuery table into Clickhouse (bq2clickhouse.py)\<close>

text \<open>
  The development embeds \<^verbatim>\<open>warehouse/oso_dagster/factories/bq2clickhouse.py\<close>:
  the fixed type table \<^verbatim>\<open>COLUMN_MAP\<close>, the schema translation
  \<^verbatim>\<open>get_bq_table_columns\<close>, the derivation of the temporary table name and the
  body of the asset \<^verbatim>\<open>bq2clickhouse_asset\<close>. Python strings are \<open>string\<close>,
  a raised exception is the \<open>Inl\<close> of a sum, and the calls into BigQuery, GCS and Clickhouse
  are state transformers over a world that the asset threads from call to call.
  Logging calls have no effect on the run and are left out. Acquiring a client from a Dagster
  resource may raise; leaving a \<^verbatim>\<open>with\<close> block releases the client and has no other
  effect on the run.
\<close>

subsection \<open>Data\<close>

text \<open>\<^verbatim>\<open>BigQueryTableConfig\<close>: the fields the asset reads.\<close>

record BigQueryTableConfig =
  project_id :: string
  dataset_name :: string
  table_name :: string

datatype SourceMode = Incremental | Overwrite

text \<open>\<^verbatim>\<open>Bq2ClickhouseAssetConfig\<close>; \<open>index\<close> is \<^verbatim>\<open>Optional[Dict[str, List[str]]]\<close>.\<close>

record Bq2ClickhouseAssetConfig =
  asset_name :: string
  sync_id :: string
  source_config :: BigQueryTableConfig
  staging_bucket :: string
  destination_table_name :: string
  index :: "(string \<times> string list) list option"
  copy_mode :: SourceMode

text \<open>A field of \<^verbatim>\<open>table.schema\<close>: its \<^verbatim>\<open>name\<close> and its \<^verbatim>\<open>field_type\<close>.\<close>

record SchemaField =
  name :: string
  field_type :: string

text \<open>
  \<^verbatim>\<open>UnsupportedTableColumn\<close> carries the message built by the translation; any
  exception raised by one of the external calls is an \<open>ExternalError\<close>.
\<close>

datatype error = UnsupportedTableColumn string | ExternalError string

text \<open>The metadata of the \<^verbatim>\<open>MaterializeResult\<close> the asset returns.\<close>

record MaterializeResult =
  success :: bool
  asset :: string
  gcs_glob :: string
  clickhouse_temp_table :: string

subsection \<open>Schema translation\<close>

definition GCS_BUCKET_DIRECTORY :: string where
  "GCS_BUCKET_DIRECTORY = ''bq2clickhouse''"

definition COLUMN_MAP_items :: "(string \<times> string) list" where
  "COLUMN_MAP_items =
    [(''STRING'', ''String''),
     (''FLOAT'', ''Float32''),
     (''FLOAT64'', ''Float64''),
     (''INTEGER'', ''Int64''),
     (''INT64'', ''Int64''),
     (''TIMESTAMP'', ''DateTime''),
     (''DATETIME'', ''DateTime''),
     (''DATE'', ''Date''),
     (''BYTES'', ''String''),
     (''BOOL'', ''Boolean''),
     (''BOOLEAN'', ''Boolean''),
     (''NUMERIC'', ''Decimal''),
     (''DECIMAL'', ''Decimal''),
     (''BIGNUMERIC'', ''Decimal256''),
     (''BIGDECIMAL'', ''Decimal256''),
     (''TIME'', ''DateTime''),
     (''JSON'', ''JSON'')]"

definition COLUMN_MAP :: "string \<rightharpoonup> string" where
  "COLUMN_MAP = map_of COLUMN_MAP_items"

text \<open>
  The message
  \<^verbatim>\<open>'Field "%s" has unsupported type "%s"' % (f.name, field_type)\<close>;
  the double quote is the character 0x22.
\<close>

definition unsupported_message :: "string \<Rightarrow> string \<Rightarrow> string" where
  "unsupported_message n t =
     ''Field '' @ [CHR 0x22] @ n @ [CHR 0x22] @ '' has unsupported type '' @ [CHR 0x22] @ t @ [CHR 0x22]"

text \<open>
  The loop \<^verbatim>\<open>for f in table.schema\<close> of \<^verbatim>\<open>get_bq_table_columns\<close>, with the
  list \<^verbatim>\<open>columns\<close> built so far as accumulator. \<^verbatim>\<open>not column_type\<close> holds for
  \<^verbatim>\<open>None\<close> and for the empty string.
\<close>

fun columns_loop :: "SchemaField list \<Rightarrow> (string \<times> string) list \<Rightarrow> error + (string \<times> string) list" where
  "columns_loop [] columns = Inr columns"
| "columns_loop (f # fs) columns =
     (if field_type f \<in> set [''RECORD'', ''STRUCT'']
      then Inl (UnsupportedTableColumn (unsupported_message (name f) (field_type f)))
      else (case COLUMN_MAP (field_type f) of
              None \<Rightarrow> Inl (UnsupportedTableColumn (unsupported_message (name f) (field_type f)))
            | Some column_type \<Rightarrow>
                if column_type = []
                then Inl (UnsupportedTableColumn (unsupported_message (name f) (field_type f)))
                else columns_loop fs (columns @ [(name f, column_type)])))"

subsection \<open>The temporary table name\<close>

text \<open>\<^verbatim>\<open>s.replace("-", "_")\<close> and \<^verbatim>\<open>s.rstrip("_")\<close>.\<close>

definition replace_dash :: "string \<Rightarrow> string" where
  "replace_dash s = map (\<lambda>c. if c = CHR ''-'' then CHR ''_'' else c) s"

definition rstrip_underscore :: "string \<Rightarrow> string" where
  "rstrip_underscore s = rev (dropWhile (\<lambda>c. c = CHR ''_'') (rev s))"

text \<open>
  Lines 142 to 144 of the asset:
  \<^verbatim>\<open>temp_dest = "%s_%s" % (destination_table_name, sync_id.replace("-", "_"))\<close>,
  cut to 63 characters and stripped of trailing underscores when it is longer than 63.
\<close>

definition temp_dest_of :: "string \<Rightarrow> string \<Rightarrow> string" where
  "temp_dest_of dest sid =
     (let temp_dest = dest @ ''_'' @ replace_dash sid
      in if length temp_dest > 63 then rstrip_underscore (take 63 temp_dest) else temp_dest)"

subsection \<open>The external calls\<close>

text \<open>
  The asset calls \<^verbatim>\<open>export_to_gcs\<close>, \<^verbatim>\<open>bq_client.get_table\<close>,
  \<^verbatim>\<open>gcs_to_http_url\<close>, \<^verbatim>\<open>create_table\<close>, \<^verbatim>\<open>import_data\<close>,
  \<^verbatim>\<open>drop_table\<close>, \<^verbatim>\<open>rename_table\<close> and \<^verbatim>\<open>batch_delete_folder\<close>, and it
  acquires its three clients with \<^verbatim>\<open>bigquery.get_client()\<close>,
  \<^verbatim>\<open>clickhouse.get_client()\<close> and \<^verbatim>\<open>gcs.get_client()\<close>.
  Their code is in \<^verbatim>\<open>utils/bq.py\<close>, \<^verbatim>\<open>utils/gcs.py\<close>,
  \<^verbatim>\<open>utils/clickhouse.py\<close>, \<^verbatim>\<open>resources\<close> and the client libraries, so each one
  is a parameter of the model: a function from the world before the call to the value it returns,
  or the exception it raises, and the world after the call. The theorems about the asset hold
  for every choice of these functions.
\<close>

datatype call =
    ExportToGcs BigQueryTableConfig string
  | GetTable BigQueryTableConfig
  | GcsToHttpUrl string
  | CreateTable string "(string \<times> string) list" "(string \<times> string list) list option" bool
  | ImportData string string
  | DropTable string
  | RenameTable string string
  | BatchDeleteFolder string string

record 'w helpers =
  bigquery_get_client :: "'w \<Rightarrow> (error + unit) \<times> 'w"
  clickhouse_get_client :: "'w \<Rightarrow> (error + unit) \<times> 'w"
  gcs_get_client :: "'w \<Rightarrow> (error + unit) \<times> 'w"
  export_to_gcs :: "BigQueryTableConfig \<Rightarrow> string \<Rightarrow> 'w \<Rightarrow> (error + string) \<times> 'w"
  get_table :: "BigQueryTableConfig \<Rightarrow> 'w \<Rightarrow> (error + SchemaField list) \<times> 'w"
  gcs_to_http_url :: "string \<Rightarrow> 'w \<Rightarrow> (error + string) \<times> 'w"
  create_table :: "string \<Rightarrow> (string \<times> string) list \<Rightarrow> (string \<times> string list) list option \<Rightarrow> bool
                     \<Rightarrow> 'w \<Rightarrow> (error + unit) \<times> 'w"
  import_data :: "string \<Rightarrow> string \<Rightarrow> 'w \<Rightarrow> (error + unit) \<times> 'w"
  drop_table :: "string \<Rightarrow> 'w \<Rightarrow> (error + unit) \<times> 'w"
  rename_table :: "string \<Rightarrow> string \<Rightarrow> 'w \<Rightarrow> (error + unit) \<times> 'w"
  batch_delete_folder :: "string \<Rightarrow> string \<Rightarrow> 'w \<Rightarrow> (error + unit) \<times> 'w"

text \<open>
  A run carries the log of the external calls made so far, each with whether it returned
  (\<open>True\<close>) or raised (\<open>False\<close>), and the world. \<open>invoke\<close> makes one call and logs
  it; \<open>acquire\<close> acquires a client, which may raise and is not entered in the log of calls;
  \<open>and_then\<close> is the sequencing of Python statements: an exception skips everything
  after it.
\<close>

type_synonym 'w run_state = "(call \<times> bool) list \<times> 'w"

definition invoke :: "call \<Rightarrow> ('w \<Rightarrow> (error + 'a) \<times> 'w) \<Rightarrow> 'w run_state \<Rightarrow> (error + 'a) \<times> 'w run_state" where
  "invoke c act s = (case act (snd s) of (r, w') \<Rightarrow> (r, (fst s @ [(c, \<not> isl r)], w')))"

definition acquire :: "('w \<Rightarrow> (error + 'a) \<times> 'w) \<Rightarrow> 'w run_state \<Rightarrow> (error + 'a) \<times> 'w run_state" where
  "acquire act s = (case act (snd s) of (r, w') \<Rightarrow> (r, (fst s, w')))"

definition and_then ::
  "('s \<Rightarrow> (error + 'a) \<times> 's) \<Rightarrow> ('a \<Rightarrow> 's \<Rightarrow> (error + 'b) \<times> 's) \<Rightarrow> 's \<Rightarrow> (error + 'b) \<times> 's" where
  "and_then m f s = (case m s of (Inl e, s') \<Rightarrow> (Inl e, s') | (Inr a, s') \<Rightarrow> f a s')"

subsection \<open>The asset\<close>

text \<open>
  \<^verbatim>\<open>get_bq_table_columns\<close>: fetch the table, then translate its schema field by field.
\<close>

definition get_bq_table_columns ::
  "'w helpers \<Rightarrow> BigQueryTableConfig \<Rightarrow> 'w run_state \<Rightarrow> (error + (string \<times> string) list) \<times> 'w run_state" where
  "get_bq_table_columns h bq_table_config =
     and_then (invoke (GetTable bq_table_config) (get_table h bq_table_config))
       (\<lambda>schema s. (columns_loop schema [], s))"

text \<open>
  The job's directory in the bucket, \<^verbatim>\<open>"%s/%s/%s" % (GCS_BUCKET_DIRECTORY, sync_id,
  destination_table_name)\<close>, and its path \<^verbatim>\<open>"gs://%s/%s" % (gcs_bucket, gcs_relative_dir)\<close>.
\<close>

definition gcs_relative_dir_of :: "Bq2ClickhouseAssetConfig \<Rightarrow> string" where
  "gcs_relative_dir_of asset_config =
     GCS_BUCKET_DIRECTORY @ ''/'' @ sync_id asset_config @ ''/'' @ destination_table_name asset_config"

definition gcs_path_of :: "Bq2ClickhouseAssetConfig \<Rightarrow> string" where
  "gcs_path_of asset_config =
     ''gs://'' @ staging_bucket asset_config @ ''/'' @ gcs_relative_dir_of asset_config"

text \<open>The body of \<^verbatim>\<open>bq2clickhouse_asset\<close>, statement by statement.\<close>

definition bq2clickhouse_asset ::
  "'w helpers \<Rightarrow> Bq2ClickhouseAssetConfig \<Rightarrow> 'w run_state \<Rightarrow> (error + MaterializeResult) \<times> 'w run_state" where
  "bq2clickhouse_asset h asset_config =
    (let bq_source = source_config asset_config;
         gcs_bucket = staging_bucket asset_config;
         gcs_relative_dir = gcs_relative_dir_of asset_config;
         gcs_path = gcs_path_of asset_config
     in
     and_then (acquire (bigquery_get_client h)) (\<lambda>_.
     and_then (invoke (ExportToGcs bq_source gcs_path) (export_to_gcs h bq_source gcs_path)) (\<lambda>glob.
     and_then (get_bq_table_columns h bq_source) (\<lambda>columns.
     let dest = destination_table_name asset_config;
         idx = index asset_config
     in
     and_then (invoke (GcsToHttpUrl glob) (gcs_to_http_url h glob)) (\<lambda>source_url.
     and_then (acquire (clickhouse_get_client h)) (\<lambda>_.
     let temp_dest = temp_dest_of dest (sync_id asset_config)
     in
     and_then (invoke (CreateTable dest columns idx True) (create_table h dest columns idx True)) (\<lambda>_.
     and_then (invoke (CreateTable temp_dest columns idx False) (create_table h temp_dest columns idx False)) (\<lambda>_.
     and_then (invoke (ImportData temp_dest source_url) (import_data h temp_dest source_url)) (\<lambda>_.
     and_then (invoke (DropTable dest) (drop_table h dest)) (\<lambda>_.
     and_then (invoke (RenameTable temp_dest dest) (rename_table h temp_dest dest)) (\<lambda>_.
     and_then (acquire (gcs_get_client h)) (\<lambda>_.
     and_then (invoke (BatchDeleteFolder gcs_bucket gcs_relative_dir)
                 (batch_delete_folder h gcs_bucket gcs_relative_dir)) (\<lambda>_ s.
     (Inr \<lparr>success = True, asset = asset_name asset_config, gcs_glob = glob,
            clickhouse_temp_table = temp_dest\<rparr>, s))))))))))))))"

text \<open>A run starts with an empty log; its result, the calls it made and the world it leaves.\<close>

definition run_result :: "'w helpers \<Rightarrow> Bq2ClickhouseAssetConfig \<Rightarrow> 'w \<Rightarrow> error + MaterializeResult" where
  "run_result h asset_config w = fst (bq2clickhouse_asset h asset_config ([], w))"

definition run_calls :: "'w helpers \<Rightarrow> Bq2ClickhouseAssetConfig \<Rightarrow> 'w \<Rightarrow> (call \<times> bool) list" where
  "run_calls h asset_config w = fst (snd (bq2clickhouse_asset h asset_config ([], w)))"

definition run_world :: "'w helpers \<Rightarrow> Bq2ClickhouseAssetConfig \<Rightarrow> 'w \<Rightarrow> 'w" where
  "run_world h asset_config w = snd (snd (bq2clickhouse_asset h asset_config ([], w)))"

subsection \<open>Stages and destination calls\<close>

text \<open>
  The five stages of a run and the stage each external call belongs to. Deriving the load URL
  stands under the source's comment \<^verbatim>\<open># Create the Clickhouse tables and import the data\<close>
  and counts as part of the load.
\<close>

datatype stage = Translate | Export | Load | Swap | Cleanup

fun stage_of :: "call \<Rightarrow> stage" where
  "stage_of (ExportToGcs _ _) = Export"
| "stage_of (GetTable _) = Translate"
| "stage_of (GcsToHttpUrl _) = Load"
| "stage_of (CreateTable _ _ _ _) = Load"
| "stage_of (ImportData _ _) = Load"
| "stage_of (DropTable _) = Swap"
| "stage_of (RenameTable _ _) = Swap"
| "stage_of (BatchDeleteFolder _ _) = Cleanup"

text \<open>The calls made through the Clickhouse client.\<close>

fun is_destination_call :: "call \<Rightarrow> bool" where
  "is_destination_call (CreateTable _ _ _ _) = True"
| "is_destination_call (ImportData _ _) = True"
| "is_destination_call (DropTable _) = True"
| "is_destination_call (RenameTable _ _) = True"
| "is_destination_call _ = False"

fun is_cleanup_call :: "call \<Rightarrow> bool" where
  "is_cleanup_call (BatchDeleteFolder _ _) = True"
| "is_cleanup_call _ = False"

text \<open>
  The order of the stages as the specification gives it,
  Translate, Export, Load, Swap, Cleanup, and as the asset runs them.
\<close>

fun spec_stage_rank :: "stage \<Rightarrow> nat" where
  "spec_stage_rank Translate = 0"
| "spec_stage_rank Export = 1"
| "spec_stage_rank Load = 2"
| "spec_stage_rank Swap = 3"
| "spec_stage_rank Cleanup = 4"

fun code_stage_rank :: "stage \<Rightarrow> nat" where
  "code_stage_rank Export = 0"
| "code_stage_rank Translate = 1"
| "code_stage_rank Load = 2"
| "code_stage_rank Swap = 3"
| "code_stage_rank Cleanup = 4"

definition stages_of_run :: "(call \<times> bool) list \<Rightarrow> stage list" where
  "stages_of_run tr = map (\<lambda>x. stage_of (fst x)) tr"

definition destination_calls :: "(call \<times> bool) list \<Rightarrow> call list" where
  "destination_calls tr = filter is_destination_call (map fst tr)"

text \<open>
  How a run ends: its result, the stages of the calls it made, in order, and the world it
  leaves.
\<close>

definition run_ends ::
  "'w helpers \<Rightarrow> Bq2ClickhouseAssetConfig \<Rightarrow> 'w \<Rightarrow> error + MaterializeResult \<Rightarrow> stage list \<Rightarrow> 'w \<Rightarrow> bool" where
  "run_ends h asset_config w r stages w' =
     (run_result h asset_config w = r \<and> stages_of_run (run_calls h asset_config w) = stages
      \<and> run_world h asset_config w = w')"

text \<open>
  The calls a run makes through the Clickhouse client when none of them raises, in the order
  of lines 147 to 155: ensure the live table, create the staging table, bulk-load into it, drop
  the live table, rename the staging table.
\<close>

definition planned_destination_calls ::
  "Bq2ClickhouseAssetConfig \<Rightarrow> (string \<times> string) list \<Rightarrow> string \<Rightarrow> call list" where
  "planned_destination_calls asset_config columns source_url =
     [CreateTable (destination_table_name asset_config) columns (index asset_config) True,
      CreateTable (temp_dest_of (destination_table_name asset_config) (sync_id asset_config)) columns
        (index asset_config) False,
      ImportData (temp_dest_of (destination_table_name asset_config) (sync_id asset_config)) source_url,
      DropTable (destination_table_name asset_config),
      RenameTable (temp_dest_of (destination_table_name asset_config) (sync_id asset_config))
        (destination_table_name asset_config)]"

text \<open>\<^verbatim>\<open>s.endswith("_")\<close>.\<close>

definition ends_with_underscore :: "string \<Rightarrow> bool" where
  "ends_with_underscore s = (s \<noteq> [] \<and> last s = CHR ''_'')"

subsection \<open>Sync ids that give the same name\<close>

text \<open>
  Two sync ids are the same up to dashes when they have the same length and agree at every
  position, a dash and an underscore counting as the same character. A sync id whose name is
  cut matches a shorter one when the shorter one is not empty, does not end in a dash or an
  underscore and, filled up with underscores to the \<open>62 - length dest\<close> characters of a
  sync id that the cut keeps, is the same up to dashes as the kept part of the long one.
\<close>

definition dash_or_underscore :: "char \<Rightarrow> bool" where
  "dash_or_underscore c = (c = CHR ''-'' \<or> c = CHR ''_'')"

definition same_up_to_dash :: "string \<Rightarrow> string \<Rightarrow> bool" where
  "same_up_to_dash a b =
     list_all2 (\<lambda>x y. x = y \<or> (dash_or_underscore x \<and> dash_or_underscore y)) a b"

definition cut_matches_short :: "string \<Rightarrow> string \<Rightarrow> string \<Rightarrow> bool" where
  "cut_matches_short dest long short =
     (short \<noteq> [] \<and> \<not> dash_or_underscore (last short)
      \<and> same_up_to_dash (take (62 - length dest) long)
            (short @ replicate (62 - length dest - length short) (CHR ''_'')))"

subsection \<open>The type table as the specification words it\<close>

text \<open>
  The fixed mapping in the words of the specification, to be compared with
  \<^verbatim>\<open>COLUMN_MAP\<close>; a column is unsupported when its type is RECORD or STRUCT or has no
  entry in the mapping.
\<close>

definition spec_column_type :: "string \<Rightarrow> string option" where
  "spec_column_type t =
     (if t = ''STRING'' then Some ''String''
      else if t = ''FLOAT'' then Some ''Float32''
      else if t = ''FLOAT64'' then Some ''Float64''
      else if t \<in> {''INTEGER'', ''INT64''} then Some ''Int64''
      else if t \<in> {''TIMESTAMP'', ''DATETIME'', ''TIME''} then Some ''DateTime''
      else if t = ''DATE'' then Some ''Date''
      else if t = ''BYTES'' then Some ''String''
      else if t \<in> {''BOOL'', ''BOOLEAN''} then Some ''Boolean''
      else if t \<in> {''NUMERIC'', ''DECIMAL''} then Some ''Decimal''
      else if t \<in> {''BIGNUMERIC'', ''BIGDECIMAL''} then Some ''Decimal256''
      else if t = ''JSON'' then Some ''JSON''
      else None)"

definition unsupported :: "SchemaField \<Rightarrow> bool" where
  "unsupported f =
     (field_type f \<in> {''RECORD'', ''STRUCT''} \<or> spec_column_type (field_type f) = None)"

subsection \<open>A simulated world\<close>

text \<open>
  Modelled from the spec: the helpers \<^verbatim>\<open>export_to_gcs\<close>, \<^verbatim>\<open>gcs_to_http_url\<close>,
  \<^verbatim>\<open>batch_delete_folder\<close>, \<^verbatim>\<open>create_table\<close>, \<^verbatim>\<open>import_data\<close>,
  \<^verbatim>\<open>drop_table\<close> and \<^verbatim>\<open>rename_table\<close> are defined outside the embedded file.
  The simulated world follows sections 4.2, 4.5 and 6 of the specification: the export writes
  a shard under the path it is given and returns a glob for it; the cleaner deletes every
  object under the job's directory; the destination engine creates, loads, drops and renames
  tables. \<open>faults\<close> chooses the calls that raise. The world serves to run the asset on
  concrete inputs.
\<close>

record sim_world =
  bq_schema :: "SchemaField list"
  gcs_objects :: "string list"
  ch_tables :: "(string \<times> (string \<times> string) list \<times> string list) list"

text \<open>
  Modelled from the spec: \<^verbatim>\<open>export_to_gcs\<close> (utils/bq.py) is missing. Section 4.2: the
  export writes objects under the path it is given and returns a glob for the exported shards.
\<close>

definition sim_export_to_gcs ::
  "(call \<Rightarrow> bool) \<Rightarrow> BigQueryTableConfig \<Rightarrow> string \<Rightarrow> sim_world \<Rightarrow> (error + string) \<times> sim_world" where
  "sim_export_to_gcs faults src path w =
     (if faults (ExportToGcs src path) then (Inl (ExternalError ''export_to_gcs''), w)
      else (Inr (path @ ''/*.parquet''),
            w\<lparr>gcs_objects := gcs_objects w @ [path @ ''/000000000000.parquet'']\<rparr>))"

text \<open>
  Modelled from the spec: \<^verbatim>\<open>bq_client.get_table\<close> (the BigQuery client) is missing.
  Section 6: it returns the ordered columns of the source table.
\<close>

definition sim_get_table ::
  "(call \<Rightarrow> bool) \<Rightarrow> BigQueryTableConfig \<Rightarrow> sim_world \<Rightarrow> (error + SchemaField list) \<times> sim_world" where
  "sim_get_table faults src w =
     (if faults (GetTable src) then (Inl (ExternalError ''get_table''), w)
      else (Inr (bq_schema w), w))"

text \<open>
  Modelled from the spec: \<^verbatim>\<open>gcs_to_http_url\<close> (utils/gcs.py) is missing. Section 6: it
  derives a load-accessible URL from an exported glob.
\<close>

definition sim_gcs_to_http_url ::
  "(call \<Rightarrow> bool) \<Rightarrow> string \<Rightarrow> sim_world \<Rightarrow> (error + string) \<times> sim_world" where
  "sim_gcs_to_http_url faults glob w =
     (if faults (GcsToHttpUrl glob) then (Inl (ExternalError ''gcs_to_http_url''), w)
      else (Inr (''https://storage.googleapis.com/'' @ drop 5 glob), w))"

text \<open>
  Modelled from the spec: \<^verbatim>\<open>create_table\<close> (utils/clickhouse.py) is missing. Sections 4.3
  and 6: it creates the table; on an existing name it is silent with \<^verbatim>\<open>if_not_exists\<close> and
  fails without it.
\<close>

definition sim_create_table ::
  "(call \<Rightarrow> bool) \<Rightarrow> string \<Rightarrow> (string \<times> string) list \<Rightarrow> (string \<times> string list) list option \<Rightarrow> bool
     \<Rightarrow> sim_world \<Rightarrow> (error + unit) \<times> sim_world" where
  "sim_create_table faults t columns idx if_not_exists w =
     (if faults (CreateTable t columns idx if_not_exists) then (Inl (ExternalError ''create_table''), w)
      else if t \<in> set (map fst (ch_tables w))
      then (if if_not_exists then (Inr (), w) else (Inl (ExternalError ''table exists''), w))
      else (Inr (), w\<lparr>ch_tables := ch_tables w @ [(t, columns, [])]\<rparr>))"

text \<open>
  Modelled from the spec: \<^verbatim>\<open>import_data\<close> (utils/clickhouse.py) is missing. Section 6: it
  bulk-loads a source URL into an existing table.
\<close>

definition sim_import_data ::
  "(call \<Rightarrow> bool) \<Rightarrow> string \<Rightarrow> string \<Rightarrow> sim_world \<Rightarrow> (error + unit) \<times> sim_world" where
  "sim_import_data faults t url w =
     (if faults (ImportData t url) then (Inl (ExternalError ''import_data''), w)
      else if t \<in> set (map fst (ch_tables w))
      then (Inr (), w\<lparr>ch_tables :=
                      map (\<lambda>(n, columns, loaded). if n = t then (n, columns, loaded @ [url])
                                                  else (n, columns, loaded)) (ch_tables w)\<rparr>)
      else (Inl (ExternalError ''no such table''), w))"

text \<open>
  Modelled from the spec: \<^verbatim>\<open>drop_table\<close> (utils/clickhouse.py) is missing. Sections 4.3 and
  6: it drops a table and fails when there is none of that name.
\<close>

definition sim_drop_table ::
  "(call \<Rightarrow> bool) \<Rightarrow> string \<Rightarrow> sim_world \<Rightarrow> (error + unit) \<times> sim_world" where
  "sim_drop_table faults t w =
     (if faults (DropTable t) then (Inl (ExternalError ''drop_table''), w)
      else if t \<in> set (map fst (ch_tables w))
      then (Inr (), w\<lparr>ch_tables := filter (\<lambda>x. fst x \<noteq> t) (ch_tables w)\<rparr>)
      else (Inl (ExternalError ''no such table''), w))"

text \<open>
  Modelled from the spec: \<^verbatim>\<open>rename_table\<close> (utils/clickhouse.py) is missing. Section 6: it
  renames an existing table to a name that is free.
\<close>

definition sim_rename_table ::
  "(call \<Rightarrow> bool) \<Rightarrow> string \<Rightarrow> string \<Rightarrow> sim_world \<Rightarrow> (error + unit) \<times> sim_world" where
  "sim_rename_table faults old new w =
     (if faults (RenameTable old new) then (Inl (ExternalError ''rename_table''), w)
      else if old \<in> set (map fst (ch_tables w)) \<and> new \<notin> set (map fst (ch_tables w))
      then (Inr (), w\<lparr>ch_tables :=
                      map (\<lambda>(n, rest). if n = old then (new, rest) else (n, rest)) (ch_tables w)\<rparr>)
      else (Inl (ExternalError ''cannot rename''), w))"

text \<open>
  Modelled from the spec: \<^verbatim>\<open>batch_delete_folder\<close> (utils/gcs.py) is missing. Section 4.5:
  it deletes every object under the job's directory in the bucket.
\<close>

definition sim_batch_delete_folder ::
  "(call \<Rightarrow> bool) \<Rightarrow> string \<Rightarrow> string \<Rightarrow> sim_world \<Rightarrow> (error + unit) \<times> sim_world" where
  "sim_batch_delete_folder faults bucket folder w =
     (if faults (BatchDeleteFolder bucket folder) then (Inl (ExternalError ''batch_delete_folder''), w)
      else (Inr (), w\<lparr>gcs_objects :=
                      filter (\<lambda>ob. \<not> prefix (''gs://'' @ bucket @ ''/'' @ folder @ ''/'') ob)
                        (gcs_objects w)\<rparr>))"

text \<open>
  Modelled from the spec: the helpers above, gathered as the parameters of the asset. Section 9:
  the components receive clients that are already authenticated, so acquiring a client
  returns and leaves the world as it is.
\<close>

definition sim_helpers :: "(call \<Rightarrow> bool) \<Rightarrow> sim_world helpers" where
  "sim_helpers faults =
     \<lparr>bigquery_get_client = (\<lambda>w. (Inr (), w)),
      clickhouse_get_client = (\<lambda>w. (Inr (), w)),
      gcs_get_client = (\<lambda>w. (Inr (), w)),
      export_to_gcs = sim_export_to_gcs faults,
      get_table = sim_get_table faults,
      gcs_to_http_url = sim_gcs_to_http_url faults,
      create_table = sim_create_table faults,
      import_data = sim_import_data faults,
      drop_table = sim_drop_table faults,
      rename_table = sim_rename_table faults,
      batch_delete_folder = sim_batch_delete_folder faults\<rparr>"

text \<open>Which calls raise: none, the bulk load, the rename, the cleanup.\<close>

definition no_faults :: "call \<Rightarrow> bool" where
  "no_faults c = False"

fun import_faults :: "call \<Rightarrow> bool" where
  "import_faults (ImportData _ _) = True"
| "import_faults _ = False"

fun rename_faults :: "call \<Rightarrow> bool" where
  "rename_faults (RenameTable _ _) = True"
| "rename_faults _ = False"


text \<open>
  Scenario A of the specification: a source table with the columns \<open>id\<close> (64-bit integer)
  and \<open>name\<close> (text), no destination table yet; and a source table with a nested column.
\<close>

definition job :: Bq2ClickhouseAssetConfig where
  "job = \<lparr>asset_name = ''a'', sync_id = ''s-1'',
          source_config = \<lparr>project_id = ''p'', dataset_name = ''d'', table_name = ''t''\<rparr>,
          staging_bucket = ''b'', destination_table_name = ''ev'',
          index = None, copy_mode = Overwrite\<rparr>"

definition flat_world :: sim_world where
  "flat_world = \<lparr>bq_schema = [\<lparr>name = ''id'', field_type = ''INT64''\<rparr>,
                               \<lparr>name = ''name'', field_type = ''STRING''\<rparr>],
                  gcs_objects = [], ch_tables = []\<rparr>"

definition nested_world :: sim_world where
  "nested_world = \<lparr>bq_schema = [\<lparr>name = ''id'', field_type = ''INT64''\<rparr>,
                                 \<lparr>name = ''tags'', field_type = ''RECORD''\<rparr>],
                    gcs_objects = [], ch_tables = []\<rparr>"

text \<open>
  The worlds the happy run passes through: after the export, after the live table has been
  ensured, after the staging table has been created, after the bulk load, after the drop of
  the live table, after the rename, after the cleanup.
\<close>

definition staged_world :: sim_world where
  "staged_world = flat_world\<lparr>gcs_objects := [''gs://b/bq2clickhouse/s-1/ev/000000000000.parquet'']\<rparr>"

definition ensured_world :: sim_world where
  "ensured_world = staged_world\<lparr>ch_tables := [(''ev'', [(''id'', ''Int64''), (''name'', ''String'')], [])]\<rparr>"

definition created_world :: sim_world where
  "created_world = staged_world\<lparr>ch_tables := [(''ev'', [(''id'', ''Int64''), (''name'', ''String'')], []),
                                               (''ev_s_1'', [(''id'', ''Int64''), (''name'', ''String'')], [])]\<rparr>"

definition loaded_world :: sim_world where
  "loaded_world = staged_world\<lparr>ch_tables :=
     [(''ev'', [(''id'', ''Int64''), (''name'', ''String'')], []),
      (''ev_s_1'', [(''id'', ''Int64''), (''name'', ''String'')],
       [''https://storage.googleapis.com/b/bq2clickhouse/s-1/ev/*.parquet''])]\<rparr>"

definition dropped_world :: sim_world where
  "dropped_world = staged_world\<lparr>ch_tables :=
     [(''ev_s_1'', [(''id'', ''Int64''), (''name'', ''String'')],
       [''https://storage.googleapis.com/b/bq2clickhouse/s-1/ev/*.parquet''])]\<rparr>"

definition renamed_world :: sim_world where
  "renamed_world = staged_world\<lparr>ch_tables :=
     [(''ev'', [(''id'', ''Int64''), (''name'', ''String'')],
       [''https://storage.googleapis.com/b/bq2clickhouse/s-1/ev/*.parquet''])]\<rparr>"

definition cleaned_world :: sim_world where
  "cleaned_world = renamed_world\<lparr>gcs_objects := []\<rparr>"

text \<open>
  Scenario C of the specification: a sync id long enough to push the name past 63 characters,
  with a dash where the cut falls.
\<close>

definition long_sync_id :: string where
  "long_sync_id = ''aaaaaaaaaaaaaaaaaaaaaaaaaaaaaaaaaaaaaaaaaaaaaaaaaaaaaaaaaaa-bcd''"

section \<open>Schema translation\<close>

lemma COLUMN_MAP_spec: "COLUMN_MAP t = spec_column_type t"
  by (simp add: COLUMN_MAP_def COLUMN_MAP_items_def spec_column_type_def)

lemma spec_column_type_nonempty: "spec_column_type t = Some c \<Longrightarrow> c \<noteq> []"
  by (auto simp: spec_column_type_def split: if_splits)

lemma columns_loop_find:
  "columns_loop fs acc =
     (case find unsupported fs of
        Some f \<Rightarrow> Inl (UnsupportedTableColumn (unsupported_message (name f) (field_type f)))
      | None \<Rightarrow> Inr (acc @ map (\<lambda>f. (name f, the (spec_column_type (field_type f)))) fs))"
proof (induction fs arbitrary: acc)
  case Nil
  show ?case by simp
next
  case (Cons f fs)
  show ?case
  proof (cases "unsupported f")
    case True
    then show ?thesis
      by (auto simp: unsupported_def COLUMN_MAP_spec)
  next
    case False
    then obtain c where c: "spec_column_type (field_type f) = Some c"
      and r: "field_type f \<noteq> ''RECORD''" "field_type f \<noteq> ''STRUCT''"
      by (auto simp: unsupported_def)
    from c have "c \<noteq> []" by (rule spec_column_type_nonempty)
    with c r False show ?thesis
      by (simp add: COLUMN_MAP_spec Cons.IH split: option.splits)
  qed
qed

text \<open>
  C1. Once the table's schema has been fetched, \<^verbatim>\<open>get_bq_table_columns\<close> is decided by
  the schema alone. If some column has type RECORD or STRUCT or a type outside the fixed
  mapping, the translation raises \<^verbatim>\<open>UnsupportedTableColumn\<close> with the message
  \<^verbatim>\<open>Field "<name>" has unsupported type "<type>"\<close> carrying the name and the type of the
  first such column. Otherwise it returns, in the order of the source columns, each column's
  name paired with the type the fixed table gives: STRING to String, FLOAT to Float32, FLOAT64
  to Float64, INTEGER and INT64 to Int64, TIMESTAMP, DATETIME and TIME to DateTime, DATE to
  Date, BYTES to String, BOOL and BOOLEAN to Boolean, NUMERIC and DECIMAL to Decimal,
  BIGNUMERIC and BIGDECIMAL to Decimal256, JSON to JSON.
\<close>

theorem get_bq_table_columns_translation:
  assumes "get_table h src w = (Inr schema, w')"
  shows "get_bq_table_columns h src (tr, w) =
           ((case find unsupported schema of
               Some f \<Rightarrow>
                 Inl (UnsupportedTableColumn
                        (''Field '' @ [CHR 0x22] @ name f @ [CHR 0x22] @ '' has unsupported type ''
                         @ [CHR 0x22] @ field_type f @ [CHR 0x22]))
             | None \<Rightarrow> Inr (map (\<lambda>f. (name f, the (spec_column_type (field_type f)))) schema)),
            (tr @ [(GetTable src, True)], w'))"
  using assms
  by (simp add: get_bq_table_columns_def and_then_def invoke_def columns_loop_find
      unsupported_message_def split: option.splits)

theorem get_bq_table_columns_translation_witness:
  "get_table (sim_helpers no_faults) (source_config job) flat_world = (Inr (bq_schema flat_world), flat_world)
   \<and> get_bq_table_columns (sim_helpers no_faults) (source_config job) ([], flat_world) =
       (Inr [(''id'', ''Int64''), (''name'', ''String'')], [(GetTable (source_config job), True)], flat_world)
   \<and> get_table (sim_helpers no_faults) (source_config job) nested_world = (Inr (bq_schema nested_world), nested_world)
   \<and> get_bq_table_columns (sim_helpers no_faults) (source_config job) ([], nested_world) =
       (Inl (UnsupportedTableColumn
              (''Field '' @ [CHR 0x22] @ ''tags'' @ [CHR 0x22] @ '' has unsupported type ''
               @ [CHR 0x22] @ ''RECORD'' @ [CHR 0x22])),
        [(GetTable (source_config job), True)], nested_world)"
proof -
  have f: "get_table (sim_helpers no_faults) (source_config job) flat_world = (Inr (bq_schema flat_world), flat_world)"
    by (simp add: sim_helpers_def sim_get_table_def no_faults_def)
  have n: "get_table (sim_helpers no_faults) (source_config job) nested_world = (Inr (bq_schema nested_world), nested_world)"
    by (simp add: sim_helpers_def sim_get_table_def no_faults_def)
  show ?thesis
    using f n get_bq_table_columns_translation [OF f, of "[]"]
      get_bq_table_columns_translation [OF n, of "[]"]
    by (simp add: flat_world_def nested_world_def unsupported_def spec_column_type_def)
qed

section \<open>The temporary table name\<close>

lemma rstrip_underscore_length: "length (rstrip_underscore s) \<le> length s"
  by (simp add: rstrip_underscore_def length_dropWhile_le[THEN order_trans])

lemma rstrip_underscore_end: "\<not> ends_with_underscore (rstrip_underscore s)"
proof
  let ?d = "dropWhile (\<lambda>c. c = CHR ''_'') (rev s)"
  assume "ends_with_underscore (rstrip_underscore s)"
  then have ne: "?d \<noteq> []" and l: "last (rev ?d) = CHR ''_''"
    by (simp_all add: rstrip_underscore_def ends_with_underscore_def)
  from ne l have "hd ?d = CHR ''_''"
    by (simp add: last_rev)
  moreover from ne have "hd ?d \<noteq> CHR ''_''"
    by (rule hd_dropWhile)
  ultimately show False by simp
qed

lemma rstrip_underscore_decomp:
  "s = rstrip_underscore s @ replicate (length s - length (rstrip_underscore s)) (CHR ''_'')"
proof -
  let ?P = "\<lambda>c. c = CHR ''_''"
  let ?t = "takeWhile ?P (rev s)"
  let ?d = "dropWhile ?P (rev s)"
  have "\<forall>y \<in> set ?t. y = CHR ''_''"
    by (auto dest: set_takeWhileD)
  then have t: "replicate (length ?t) (CHR ''_'') = ?t"
    by (rule replicate_length_same)
  have s: "s = rev ?d @ rev ?t"
    by (metis rev_append rev_rev_ident takeWhile_dropWhile_id)
  have len: "length s - length (rstrip_underscore s) = length ?t"
  proof -
    have "length s = length ?d + length ?t"
      using arg_cong[OF s, of length] by simp
    then show ?thesis
      by (simp add: rstrip_underscore_def)
  qed
  have "rev ?t = replicate (length ?t) (CHR ''_'')"
    using t by (metis rev_replicate)
  with s len show ?thesis
    by (simp add: rstrip_underscore_def)
qed

lemma rstrip_underscore_append:
  assumes "\<not> ends_with_underscore t"
  shows "rstrip_underscore (t @ replicate k (CHR ''_'')) = t"
proof -
  let ?P = "\<lambda>c. c = CHR ''_''"
  have "dropWhile ?P (replicate k (CHR ''_'') @ rev t) = dropWhile ?P (rev t)"
    by (rule dropWhile_append2) simp
  moreover have "dropWhile ?P (rev t) = rev t"
  proof (cases t rule: rev_cases)
    case Nil
    then show ?thesis by simp
  next
    case (snoc ys y)
    with assms show ?thesis
      by (simp add: ends_with_underscore_def)
  qed
  ultimately show ?thesis
    by (simp add: rstrip_underscore_def)
qed

lemma rstrip_underscore_eq_iff:
  "rstrip_underscore u = t \<longleftrightarrow>
     \<not> ends_with_underscore t \<and> u = t @ replicate (length u - length t) (CHR ''_'')"
proof
  assume "rstrip_underscore u = t"
  then show "\<not> ends_with_underscore t \<and> u = t @ replicate (length u - length t) (CHR ''_'')"
    using rstrip_underscore_end[of u] rstrip_underscore_decomp[of u] by auto
next
  assume a: "\<not> ends_with_underscore t \<and> u = t @ replicate (length u - length t) (CHR ''_'')"
  then have n: "\<not> ends_with_underscore t"
    and e: "u = t @ replicate (length u - length t) (CHR ''_'')"
    by blast+
  from n have "rstrip_underscore (t @ replicate (length u - length t) (CHR ''_'')) = t"
    by (rule rstrip_underscore_append)
  then show "rstrip_underscore u = t"
    by (subst e)
qed

lemma rstrip_underscore_same_length:
  assumes "length u = length v"
  shows "rstrip_underscore u = rstrip_underscore v \<longleftrightarrow> u = v"
proof
  assume e: "rstrip_underscore u = rstrip_underscore v"
  have "u = rstrip_underscore u @ replicate (length u - length (rstrip_underscore u)) (CHR ''_'')"
    by (rule rstrip_underscore_decomp)
  also have "\<dots> = rstrip_underscore v @ replicate (length v - length (rstrip_underscore v)) (CHR ''_'')"
    using e assms by simp
  also have "\<dots> = v"
    by (rule rstrip_underscore_decomp[symmetric])
  finally show "u = v" .
next
  assume "u = v"
  then show "rstrip_underscore u = rstrip_underscore v" by simp
qed

lemma replace_dash_eq_iff: "replace_dash a = replace_dash b \<longleftrightarrow> same_up_to_dash a b"
proof -
  let ?f = "\<lambda>c. if c = CHR ''-'' then CHR ''_'' else c"
  have "map ?f a = map ?f b \<longleftrightarrow> list_all2 (=) (map ?f a) (map ?f b)"
    by (simp add: list.rel_eq)
  also have "\<dots> \<longleftrightarrow> list_all2 (\<lambda>x y. ?f x = ?f y) a b"
    by (simp add: list.rel_map)
  also have "\<dots> \<longleftrightarrow> list_all2 (\<lambda>x y. x = y \<or> (dash_or_underscore x \<and> dash_or_underscore y)) a b"
    by (rule arg_cong[where f="\<lambda>R. list_all2 R a b"]) (auto simp: dash_or_underscore_def fun_eq_iff)
  finally show ?thesis
    by (simp add: replace_dash_def same_up_to_dash_def)
qed

lemma replace_dash_take: "take n (replace_dash s) = replace_dash (take n s)"
  by (simp add: replace_dash_def take_map)

lemma replace_dash_pad: "replace_dash s @ replicate k (CHR ''_'') = replace_dash (s @ replicate k (CHR ''_''))"
  by (simp add: replace_dash_def)

lemma replace_dash_length: "length (replace_dash s) = length s"
  by (simp add: replace_dash_def)

lemma take_63_name:
  "take 63 (dest @ CHR ''_'' # x) = take 63 (dest @ CHR ''_'' # y) \<longleftrightarrow>
     take (62 - length dest) x = take (62 - length dest) y"
proof (cases "length dest \<le> 62")
  case True
  then have "63 - length dest = Suc (62 - length dest)"
    by simp
  then show ?thesis
    by simp
next
  case False
  then show ?thesis
    by simp
qed

lemma name_end:
  "ends_with_underscore (dest @ CHR ''_'' # replace_dash b) \<longleftrightarrow> b = [] \<or> dash_or_underscore (last b)"
  by (cases b rule: rev_cases) (auto simp: ends_with_underscore_def replace_dash_def dash_or_underscore_def)

lemma cut_short_eq:
  assumes a: "63 < length dest + 1 + length a" and b: "length dest + 1 + length b \<le> 63"
  shows "temp_dest_of dest a = temp_dest_of dest b \<longleftrightarrow> cut_matches_short dest a b"
proof -
  let ?n = "62 - length dest"
  let ?ua = "dest @ CHR ''_'' # replace_dash a"
  let ?ub = "dest @ CHR ''_'' # replace_dash b"
  from b have d: "length dest \<le> 62" by simp
  have ta: "temp_dest_of dest a = rstrip_underscore (take 63 ?ua)"
    using a by (simp add: temp_dest_of_def replace_dash_length)
  have tb: "temp_dest_of dest b = ?ub"
    using b by (simp add: temp_dest_of_def replace_dash_length)
  have t63: "take 63 ?ua = dest @ CHR ''_'' # take ?n (replace_dash a)"
  proof -
    from d have "63 - length dest = Suc ?n" by simp
    with d show ?thesis by simp
  qed
  have l63: "length (take 63 ?ua) = 63"
    using a by (simp add: replace_dash_length)
  have k: "63 - length ?ub = ?n - length b"
    using b by (simp add: replace_dash_length)
  have "temp_dest_of dest a = temp_dest_of dest b \<longleftrightarrow>
          \<not> ends_with_underscore ?ub \<and> take 63 ?ua = ?ub @ replicate (63 - length ?ub) (CHR ''_'')"
    unfolding ta tb rstrip_underscore_eq_iff[of "take 63 ?ua" ?ub] l63 ..
  also have "\<dots> \<longleftrightarrow> (b \<noteq> [] \<and> \<not> dash_or_underscore (last b))
        \<and> take ?n (replace_dash a) = replace_dash b @ replicate (?n - length b) (CHR ''_'')"
    unfolding t63 k name_end by simp
  also have "\<dots> \<longleftrightarrow> cut_matches_short dest a b"
    by (simp add: cut_matches_short_def replace_dash_take replace_dash_pad replace_dash_eq_iff)
  finally show ?thesis .
qed

text \<open>
  C3, as stated, fails: the trailing underscore is stripped only when the name is cut. For the
  destination table \<open>ev\<close> and the sync id \<open>run-\<close> the name is \<open>ev_run_\<close>.
\<close>

theorem temp_dest_trailing_underscore:
  "temp_dest_of ''ev'' ''run-'' = ''ev_run_'' \<and> ends_with_underscore (temp_dest_of ''ev'' ''run-'')"
  by (simp add: temp_dest_of_def ends_with_underscore_def replace_dash_def)

text \<open>
  C3, amended. The name is built from the destination table name, an underscore and the sync
  id with every dash replaced by an underscore. For every destination table name and every
  sync id the temporary table name has at most 63 characters. When the built name is longer
  than 63 characters, the temporary table name is its first 63 characters without their
  trailing underscores: it does not end in an underscore, and followed by underscores up to
  63 characters it is the first 63 characters of the built name. When the built name has at
  most 63 characters it is used as it is.
\<close>

theorem temp_dest_length_bound:
  "length (temp_dest_of dest sid) \<le> 63
   \<and> length (replace_dash sid) = length sid
   \<and> (\<forall>i < length sid. replace_dash sid ! i = (if sid ! i = CHR ''-'' then CHR ''_'' else sid ! i))
   \<and> (63 < length (dest @ ''_'' @ replace_dash sid) \<longrightarrow>
        \<not> ends_with_underscore (temp_dest_of dest sid)
        \<and> take 63 (dest @ ''_'' @ replace_dash sid) =
            temp_dest_of dest sid @ replicate (63 - length (temp_dest_of dest sid)) (CHR ''_''))
   \<and> (length (dest @ ''_'' @ replace_dash sid) \<le> 63 \<longrightarrow>
        temp_dest_of dest sid = dest @ ''_'' @ replace_dash sid)"
proof -
  define t where "t = dest @ ''_'' @ replace_dash sid"
  have eq: "temp_dest_of dest sid = (if 63 < length t then rstrip_underscore (take 63 t) else t)"
    by (simp add: temp_dest_of_def t_def Let_def)
  have "length (rstrip_underscore (take 63 t)) \<le> length (take 63 t)"
    by (rule rstrip_underscore_length)
  then have "length (rstrip_underscore (take 63 t)) \<le> 63"
    by simp
  with eq have bound: "length (temp_dest_of dest sid) \<le> 63"
    by simp
  have chars: "length (replace_dash sid) = length sid
      \<and> (\<forall>i < length sid. replace_dash sid ! i = (if sid ! i = CHR ''-'' then CHR ''_'' else sid ! i))"
    by (simp add: replace_dash_def)
  have cut: "63 < length t \<longrightarrow>
      \<not> ends_with_underscore (temp_dest_of dest sid)
      \<and> take 63 t = temp_dest_of dest sid @ replicate (63 - length (temp_dest_of dest sid)) (CHR ''_'')"
  proof
    assume l: "63 < length t"
    then have r: "temp_dest_of dest sid = rstrip_underscore (take 63 t)"
      by (simp add: eq)
    from l have "length (take 63 t) = 63"
      by simp
    with rstrip_underscore_decomp[of "take 63 t"]
    have "take 63 t = rstrip_underscore (take 63 t)
            @ replicate (63 - length (rstrip_underscore (take 63 t))) (CHR ''_'')"
      by simp
    with r show "\<not> ends_with_underscore (temp_dest_of dest sid)
      \<and> take 63 t = temp_dest_of dest sid @ replicate (63 - length (temp_dest_of dest sid)) (CHR ''_'')"
      by (simp add: rstrip_underscore_end)
  qed
  have uncut: "length t \<le> 63 \<longrightarrow> temp_dest_of dest sid = t"
    by (simp add: eq)
  from bound chars cut uncut show ?thesis
    unfolding t_def by blast
qed

theorem temp_dest_length_bound_witness:
  "63 < length (''ev'' @ ''_'' @ replace_dash long_sync_id)
   \<and> length (temp_dest_of ''ev'' long_sync_id) \<le> 63
   \<and> \<not> ends_with_underscore (temp_dest_of ''ev'' long_sync_id)
   \<and> temp_dest_of ''ev'' long_sync_id = ''ev_aaaaaaaaaaaaaaaaaaaaaaaaaaaaaaaaaaaaaaaaaaaaaaaaaaaaaaaaaaa''
   \<and> take 63 (''ev'' @ ''_'' @ replace_dash long_sync_id) = ''ev_aaaaaaaaaaaaaaaaaaaaaaaaaaaaaaaaaaaaaaaaaaaaaaaaaaaaaaaaaaa_''
   \<and> length (''ev'' @ ''_'' @ replace_dash ''s-1'') \<le> 63
   \<and> temp_dest_of ''ev'' ''s-1'' = ''ev_s_1''"
  using temp_dest_length_bound [of "''ev''" long_sync_id] temp_dest_length_bound [of "''ev''" "''s-1''"]
  by (simp add: replace_dash_def long_sync_id_def temp_dest_of_def rstrip_underscore_def)

text \<open>
  C4, as stated, fails: the sync ids \<open>a-b\<close> and \<open>a_b\<close> differ and give the same name, and
  so do two long sync ids that differ only after the cut.
\<close>

theorem temp_dest_collision:
  "''a-b'' \<noteq> ''a_b'' \<and> temp_dest_of ''ev'' ''a-b'' = temp_dest_of ''ev'' ''a_b''
   \<and> long_sync_id \<noteq> long_sync_id @ ''x''
   \<and> temp_dest_of ''ev'' long_sync_id = temp_dest_of ''ev'' (long_sync_id @ ''x'')"
  by (simp add: temp_dest_of_def replace_dash_def long_sync_id_def)

text \<open>
  C4, amended. For a fixed destination table, two sync ids give the same temporary table name
  in these cases and in no other: neither name is cut and the sync ids are the same up to
  dashes and underscores; both names are cut and the first \<open>62 - length dest\<close> characters
  of the sync ids are the same up to dashes and underscores; one name is cut and the other is
  not, the shorter sync id is not empty, does not end in a dash or an underscore and, filled
  up with underscores, is the same up to dashes and underscores as the first
  \<open>62 - length dest\<close> characters of the longer one. In every other case the names are
  distinct.
\<close>

theorem temp_dest_same:
  "temp_dest_of dest a = temp_dest_of dest b \<longleftrightarrow>
     (if 63 < length dest + 1 + length a \<and> 63 < length dest + 1 + length b
        then same_up_to_dash (take (62 - length dest) a) (take (62 - length dest) b)
      else if 63 < length dest + 1 + length a then cut_matches_short dest a b
      else if 63 < length dest + 1 + length b then cut_matches_short dest b a
      else same_up_to_dash a b)"
proof -
  consider (both) "63 < length dest + 1 + length a" "63 < length dest + 1 + length b"
    | (left) "63 < length dest + 1 + length a" "length dest + 1 + length b \<le> 63"
    | (right) "length dest + 1 + length a \<le> 63" "63 < length dest + 1 + length b"
    | (none) "length dest + 1 + length a \<le> 63" "length dest + 1 + length b \<le> 63"
    by linarith
  then show ?thesis
  proof cases
    case both
    let ?ua = "dest @ CHR ''_'' # replace_dash a"
    let ?ub = "dest @ CHR ''_'' # replace_dash b"
    have ta: "temp_dest_of dest a = rstrip_underscore (take 63 ?ua)"
      using both by (simp add: temp_dest_of_def replace_dash_length)
    have tb: "temp_dest_of dest b = rstrip_underscore (take 63 ?ub)"
      using both by (simp add: temp_dest_of_def replace_dash_length)
    have "length (take 63 ?ua) = length (take 63 ?ub)"
      using both by (simp add: replace_dash_length)
    then have "temp_dest_of dest a = temp_dest_of dest b \<longleftrightarrow> take 63 ?ua = take 63 ?ub"
      unfolding ta tb by (rule rstrip_underscore_same_length)
    also have "\<dots> \<longleftrightarrow> same_up_to_dash (take (62 - length dest) a) (take (62 - length dest) b)"
      by (simp only: take_63_name replace_dash_take replace_dash_eq_iff)
    finally show ?thesis
      using both by simp
  next
    case left
    then show ?thesis
      using cut_short_eq[of dest a b] by simp
  next
    case right
    have "temp_dest_of dest a = temp_dest_of dest b \<longleftrightarrow> temp_dest_of dest b = temp_dest_of dest a"
      by (rule eq_commute)
    with right show ?thesis
      using cut_short_eq[of dest b a] by simp
  next
    case none
    then show ?thesis
      by (simp add: temp_dest_of_def replace_dash_length replace_dash_eq_iff)
  qed
qed

theorem temp_dest_same_witness:
  "temp_dest_of ''ev'' ''s-1'' \<noteq> temp_dest_of ''ev'' ''s-2''
   \<and> temp_dest_of ''ev'' ''a-b'' = temp_dest_of ''ev'' ''a_b''
   \<and> temp_dest_of ''ev'' long_sync_id \<noteq> temp_dest_of ''ev'' (CHR ''b'' # long_sync_id)
   \<and> temp_dest_of ''ev'' long_sync_id = temp_dest_of ''ev'' (long_sync_id @ ''x'')
   \<and> temp_dest_of ''ev'' long_sync_id = temp_dest_of ''ev'' (take 59 long_sync_id)
   \<and> temp_dest_of ''ev'' long_sync_id \<noteq> temp_dest_of ''ev'' (take 58 long_sync_id)"
proof -
  note defs = same_up_to_dash_def cut_matches_short_def dash_or_underscore_def long_sync_id_def
  have 1: "temp_dest_of ''ev'' ''s-1'' \<noteq> temp_dest_of ''ev'' ''s-2''"
    using temp_dest_same [of "''ev''" "''s-1''" "''s-2''"] by (simp add: defs)
  have 2: "temp_dest_of ''ev'' ''a-b'' = temp_dest_of ''ev'' ''a_b''"
    using temp_dest_same [of "''ev''" "''a-b''" "''a_b''"] by (simp add: defs)
  have 3: "temp_dest_of ''ev'' long_sync_id \<noteq> temp_dest_of ''ev'' (CHR ''b'' # long_sync_id)"
    using temp_dest_same [of "''ev''" long_sync_id "CHR ''b'' # long_sync_id"] by (simp add: defs)
  have 4: "temp_dest_of ''ev'' long_sync_id = temp_dest_of ''ev'' (long_sync_id @ ''x'')"
    using temp_dest_same [of "''ev''" long_sync_id "long_sync_id @ ''x''"] by (simp add: defs)
  have 5: "temp_dest_of ''ev'' long_sync_id = temp_dest_of ''ev'' (take 59 long_sync_id)"
    using temp_dest_same [of "''ev''" long_sync_id "take 59 long_sync_id"] by (simp add: defs)
  have 6: "temp_dest_of ''ev'' long_sync_id \<noteq> temp_dest_of ''ev'' (take 58 long_sync_id)"
    using temp_dest_same [of "''ev''" long_sync_id "take 58 long_sync_id"]
    by (simp add: defs numeral_2_eq_2)
  from 1 2 3 4 5 6 show ?thesis
    by blast
qed

section \<open>The runs of the asset\<close>

text \<open>
  Every run of the asset ends in one of fourteen ways: the acquisition of one of the three
  clients raises, one of the nine external calls raises, the translation of the schema fails,
  or the run returns its result. In each case the log of calls and the final world are
  determined by what the steps returned.
\<close>

lemma run_cases [case_names bigquery_client_raised export_raised get_table_raised translation_failed url_raised clickhouse_client_raised ensure_raised staging_raised import_raised drop_raised rename_raised gcs_client_raised cleanup_raised succeeded]:
  obtains
    (bigquery_client_raised) e wb where
        "bigquery_get_client h w = (Inl e, wb)"
        "bq2clickhouse_asset h cfg ([], w) =
          (Inl e,
           [],
           wb)"
  | (export_raised) wb e w1 where
        "bigquery_get_client h w = (Inr (), wb)"
        "export_to_gcs h (source_config cfg) (gcs_path_of cfg) wb = (Inl e, w1)"
        "bq2clickhouse_asset h cfg ([], w) =
          (Inl e,
           [(ExportToGcs (source_config cfg) (gcs_path_of cfg), False)],
           w1)"
  | (get_table_raised) wb glob w1 e w2 where
        "bigquery_get_client h w = (Inr (), wb)"
        "export_to_gcs h (source_config cfg) (gcs_path_of cfg) wb = (Inr glob, w1)"
        "get_table h (source_config cfg) w1 = (Inl e, w2)"
        "bq2clickhouse_asset h cfg ([], w) =
          (Inl e,
           [(ExportToGcs (source_config cfg) (gcs_path_of cfg), True),
           (GetTable (source_config cfg), False)],
           w2)"
  | (translation_failed) wb glob w1 schema w2 e where
        "bigquery_get_client h w = (Inr (), wb)"
        "export_to_gcs h (source_config cfg) (gcs_path_of cfg) wb = (Inr glob, w1)"
        "get_table h (source_config cfg) w1 = (Inr schema, w2)"
        "columns_loop schema [] = Inl e"
        "bq2clickhouse_asset h cfg ([], w) =
          (Inl e,
           [(ExportToGcs (source_config cfg) (gcs_path_of cfg), True),
           (GetTable (source_config cfg), True)],
           w2)"
  | (url_raised) wb glob w1 schema w2 cols e w3 where
        "bigquery_get_client h w = (Inr (), wb)"
        "export_to_gcs h (source_config cfg) (gcs_path_of cfg) wb = (Inr glob, w1)"
        "get_table h (source_config cfg) w1 = (Inr schema, w2)"
        "columns_loop schema [] = Inr cols"
        "gcs_to_http_url h glob w2 = (Inl e, w3)"
        "bq2clickhouse_asset h cfg ([], w) =
          (Inl e,
           [(ExportToGcs (source_config cfg) (gcs_path_of cfg), True),
           (GetTable (source_config cfg), True),
           (GcsToHttpUrl glob, False)],
           w3)"
  | (clickhouse_client_raised) wb glob w1 schema w2 cols url w3 e wc where
        "bigquery_get_client h w = (Inr (), wb)"
        "export_to_gcs h (source_config cfg) (gcs_path_of cfg) wb = (Inr glob, w1)"
        "get_table h (source_config cfg) w1 = (Inr schema, w2)"
        "columns_loop schema [] = Inr cols"
        "gcs_to_http_url h glob w2 = (Inr url, w3)"
        "clickhouse_get_client h w3 = (Inl e, wc)"
        "bq2clickhouse_asset h cfg ([], w) =
          (Inl e,
           [(ExportToGcs (source_config cfg) (gcs_path_of cfg), True),
           (GetTable (source_config cfg), True),
           (GcsToHttpUrl glob, True)],
           wc)"
  | (ensure_raised) wb glob w1 schema w2 cols url w3 wc e w4 where
        "bigquery_get_client h w = (Inr (), wb)"
        "export_to_gcs h (source_config cfg) (gcs_path_of cfg) wb = (Inr glob, w1)"
        "get_table h (source_config cfg) w1 = (Inr schema, w2)"
        "columns_loop schema [] = Inr cols"
        "gcs_to_http_url h glob w2 = (Inr url, w3)"
        "clickhouse_get_client h w3 = (Inr (), wc)"
        "create_table h (destination_table_name cfg) cols (index cfg) True wc = (Inl e, w4)"
        "bq2clickhouse_asset h cfg ([], w) =
          (Inl e,
           [(ExportToGcs (source_config cfg) (gcs_path_of cfg), True),
           (GetTable (source_config cfg), True),
           (GcsToHttpUrl glob, True),
           (CreateTable (destination_table_name cfg) cols (index cfg) True, False)],
           w4)"
  | (staging_raised) wb glob w1 schema w2 cols url w3 wc w4 e w5 where
        "bigquery_get_client h w = (Inr (), wb)"
        "export_to_gcs h (source_config cfg) (gcs_path_of cfg) wb = (Inr glob, w1)"
        "get_table h (source_config cfg) w1 = (Inr schema, w2)"
        "columns_loop schema [] = Inr cols"
        "gcs_to_http_url h glob w2 = (Inr url, w3)"
        "clickhouse_get_client h w3 = (Inr (), wc)"
        "create_table h (destination_table_name cfg) cols (index cfg) True wc = (Inr (), w4)"
        "create_table h (temp_dest_of (destination_table_name cfg) (sync_id cfg)) cols (index cfg) False w4 = (Inl e, w5)"
        "bq2clickhouse_asset h cfg ([], w) =
          (Inl e,
           [(ExportToGcs (source_config cfg) (gcs_path_of cfg), True),
           (GetTable (source_config cfg), True),
           (GcsToHttpUrl glob, True),
           (CreateTable (destination_table_name cfg) cols (index cfg) True, True),
           (CreateTable (temp_dest_of (destination_table_name cfg) (sync_id cfg)) cols (index cfg) False, False)],
           w5)"
  | (import_raised) wb glob w1 schema w2 cols url w3 wc w4 w5 e w6 where
        "bigquery_get_client h w = (Inr (), wb)"
        "export_to_gcs h (source_config cfg) (gcs_path_of cfg) wb = (Inr glob, w1)"
        "get_table h (source_config cfg) w1 = (Inr schema, w2)"
        "columns_loop schema [] = Inr cols"
        "gcs_to_http_url h glob w2 = (Inr url, w3)"
        "clickhouse_get_client h w3 = (Inr (), wc)"
        "create_table h (destination_table_name cfg) cols (index cfg) True wc = (Inr (), w4)"
        "create_table h (temp_dest_of (destination_table_name cfg) (sync_id cfg)) cols (index cfg) False w4 = (Inr (), w5)"
        "import_data h (temp_dest_of (destination_table_name cfg) (sync_id cfg)) url w5 = (Inl e, w6)"
        "bq2clickhouse_asset h cfg ([], w) =
          (Inl e,
           [(ExportToGcs (source_config cfg) (gcs_path_of cfg), True),
           (GetTable (source_config cfg), True),
           (GcsToHttpUrl glob, True),
           (CreateTable (destination_table_name cfg) cols (index cfg) True, True),
           (CreateTable (temp_dest_of (destination_table_name cfg) (sync_id cfg)) cols (index cfg) False, True),
           (ImportData (temp_dest_of (destination_table_name cfg) (sync_id cfg)) url, False)],
           w6)"
  | (drop_raised) wb glob w1 schema w2 cols url w3 wc w4 w5 w6 e w7 where
        "bigquery_get_client h w = (Inr (), wb)"
        "export_to_gcs h (source_config cfg) (gcs_path_of cfg) wb = (Inr glob, w1)"
        "get_table h (source_config cfg) w1 = (Inr schema, w2)"
        "columns_loop schema [] = Inr cols"
        "gcs_to_http_url h glob w2 = (Inr url, w3)"
        "clickhouse_get_client h w3 = (Inr (), wc)"
        "create_table h (destination_table_name cfg) cols (index cfg) True wc = (Inr (), w4)"
        "create_table h (temp_dest_of (destination_table_name cfg) (sync_id cfg)) cols (index cfg) False w4 = (Inr (), w5)"
        "import_data h (temp_dest_of (destination_table_name cfg) (sync_id cfg)) url w5 = (Inr (), w6)"
        "drop_table h (destination_table_name cfg) w6 = (Inl e, w7)"
        "bq2clickhouse_asset h cfg ([], w) =
          (Inl e,
           [(ExportToGcs (source_config cfg) (gcs_path_of cfg), True),
           (GetTable (source_config cfg), True),
           (GcsToHttpUrl glob, True),
           (CreateTable (destination_table_name cfg) cols (index cfg) True, True),
           (CreateTable (temp_dest_of (destination_table_name cfg) (sync_id cfg)) cols (index cfg) False, True),
           (ImportData (temp_dest_of (destination_table_name cfg) (sync_id cfg)) url, True),
           (DropTable (destination_table_name cfg), False)],
           w7)"
  | (rename_raised) wb glob w1 schema w2 cols url w3 wc w4 w5 w6 w7 e w8 where
        "bigquery_get_client h w = (Inr (), wb)"
        "export_to_gcs h (source_config cfg) (gcs_path_of cfg) wb = (Inr glob, w1)"
        "get_table h (source_config cfg) w1 = (Inr schema, w2)"
        "columns_loop schema [] = Inr cols"
        "gcs_to_http_url h glob w2 = (Inr url, w3)"
        "clickhouse_get_client h w3 = (Inr (), wc)"
        "create_table h (destination_table_name cfg) cols (index cfg) True wc = (Inr (), w4)"
        "create_table h (temp_dest_of (destination_table_name cfg) (sync_id cfg)) cols (index cfg) False w4 = (Inr (), w5)"
        "import_data h (temp_dest_of (destination_table_name cfg) (sync_id cfg)) url w5 = (Inr (), w6)"
        "drop_table h (destination_table_name cfg) w6 = (Inr (), w7)"
        "rename_table h (temp_dest_of (destination_table_name cfg) (sync_id cfg)) (destination_table_name cfg) w7 = (Inl e, w8)"
        "bq2clickhouse_asset h cfg ([], w) =
          (Inl e,
           [(ExportToGcs (source_config cfg) (gcs_path_of cfg), True),
           (GetTable (source_config cfg), True),
           (GcsToHttpUrl glob, True),
           (CreateTable (destination_table_name cfg) cols (index cfg) True, True),
           (CreateTable (temp_dest_of (destination_table_name cfg) (sync_id cfg)) cols (index cfg) False, True),
           (ImportData (temp_dest_of (destination_table_name cfg) (sync_id cfg)) url, True),
           (DropTable (destination_table_name cfg), True),
           (RenameTable (temp_dest_of (destination_table_name cfg) (sync_id cfg)) (destination_table_name cfg), False)],
           w8)"
  | (gcs_client_raised) wb glob w1 schema w2 cols url w3 wc w4 w5 w6 w7 w8 e wg where
        "bigquery_get_client h w = (Inr (), wb)"
        "export_to_gcs h (source_config cfg) (gcs_path_of cfg) wb = (Inr glob, w1)"
        "get_table h (source_config cfg) w1 = (Inr schema, w2)"
        "columns_loop schema [] = Inr cols"
        "gcs_to_http_url h glob w2 = (Inr url, w3)"
        "clickhouse_get_client h w3 = (Inr (), wc)"
        "create_table h (destination_table_name cfg) cols (index cfg) True wc = (Inr (), w4)"
        "create_table h (temp_dest_of (destination_table_name cfg) (sync_id cfg)) cols (index cfg) False w4 = (Inr (), w5)"
        "import_data h (temp_dest_of (destination_table_name cfg) (sync_id cfg)) url w5 = (Inr (), w6)"
        "drop_table h (destination_table_name cfg) w6 = (Inr (), w7)"
        "rename_table h (temp_dest_of (destination_table_name cfg) (sync_id cfg)) (destination_table_name cfg) w7 = (Inr (), w8)"
        "gcs_get_client h w8 = (Inl e, wg)"
        "bq2clickhouse_asset h cfg ([], w) =
          (Inl e,
           [(ExportToGcs (source_config cfg) (gcs_path_of cfg), True),
           (GetTable (source_config cfg), True),
           (GcsToHttpUrl glob, True),
           (CreateTable (destination_table_name cfg) cols (index cfg) True, True),
           (CreateTable (temp_dest_of (destination_table_name cfg) (sync_id cfg)) cols (index cfg) False, True),
           (ImportData (temp_dest_of (destination_table_name cfg) (sync_id cfg)) url, True),
           (DropTable (destination_table_name cfg), True),
           (RenameTable (temp_dest_of (destination_table_name cfg) (sync_id cfg)) (destination_table_name cfg), True)],
           wg)"
  | (cleanup_raised) wb glob w1 schema w2 cols url w3 wc w4 w5 w6 w7 w8 wg e w9 where
        "bigquery_get_client h w = (Inr (), wb)"
        "export_to_gcs h (source_config cfg) (gcs_path_of cfg) wb = (Inr glob, w1)"
        "get_table h (source_config cfg) w1 = (Inr schema, w2)"
        "columns_loop schema [] = Inr cols"
        "gcs_to_http_url h glob w2 = (Inr url, w3)"
        "clickhouse_get_client h w3 = (Inr (), wc)"
        "create_table h (destination_table_name cfg) cols (index cfg) True wc = (Inr (), w4)"
        "create_table h (temp_dest_of (destination_table_name cfg) (sync_id cfg)) cols (index cfg) False w4 = (Inr (), w5)"
        "import_data h (temp_dest_of (destination_table_name cfg) (sync_id cfg)) url w5 = (Inr (), w6)"
        "drop_table h (destination_table_name cfg) w6 = (Inr (), w7)"
        "rename_table h (temp_dest_of (destination_table_name cfg) (sync_id cfg)) (destination_table_name cfg) w7 = (Inr (), w8)"
        "gcs_get_client h w8 = (Inr (), wg)"
        "batch_delete_folder h (staging_bucket cfg) (gcs_relative_dir_of cfg) wg = (Inl e, w9)"
        "bq2clickhouse_asset h cfg ([], w) =
          (Inl e,
           [(ExportToGcs (source_config cfg) (gcs_path_of cfg), True),
           (GetTable (source_config cfg), True),
           (GcsToHttpUrl glob, True),
           (CreateTable (destination_table_name cfg) cols (index cfg) True, True),
           (CreateTable (temp_dest_of (destination_table_name cfg) (sync_id cfg)) cols (index cfg) False, True),
           (ImportData (temp_dest_of (destination_table_name cfg) (sync_id cfg)) url, True),
           (DropTable (destination_table_name cfg), True),
           (RenameTable (temp_dest_of (destination_table_name cfg) (sync_id cfg)) (destination_table_name cfg), True),
           (BatchDeleteFolder (staging_bucket cfg) (gcs_relative_dir_of cfg), False)],
           w9)"
  | (succeeded) wb glob w1 schema w2 cols url w3 wc w4 w5 w6 w7 w8 wg w9 where
        "bigquery_get_client h w = (Inr (), wb)"
        "export_to_gcs h (source_config cfg) (gcs_path_of cfg) wb = (Inr glob, w1)"
        "get_table h (source_config cfg) w1 = (Inr schema, w2)"
        "columns_loop schema [] = Inr cols"
        "gcs_to_http_url h glob w2 = (Inr url, w3)"
        "clickhouse_get_client h w3 = (Inr (), wc)"
        "create_table h (destination_table_name cfg) cols (index cfg) True wc = (Inr (), w4)"
        "create_table h (temp_dest_of (destination_table_name cfg) (sync_id cfg)) cols (index cfg) False w4 = (Inr (), w5)"
        "import_data h (temp_dest_of (destination_table_name cfg) (sync_id cfg)) url w5 = (Inr (), w6)"
        "drop_table h (destination_table_name cfg) w6 = (Inr (), w7)"
        "rename_table h (temp_dest_of (destination_table_name cfg) (sync_id cfg)) (destination_table_name cfg) w7 = (Inr (), w8)"
        "gcs_get_client h w8 = (Inr (), wg)"
        "batch_delete_folder h (staging_bucket cfg) (gcs_relative_dir_of cfg) wg = (Inr (), w9)"
        "bq2clickhouse_asset h cfg ([], w) =
          (Inr \<lparr>success = True, asset = asset_name cfg, gcs_glob = glob,
                clickhouse_temp_table = temp_dest_of (destination_table_name cfg) (sync_id cfg)\<rparr>,
           [(ExportToGcs (source_config cfg) (gcs_path_of cfg), True),
           (GetTable (source_config cfg), True),
           (GcsToHttpUrl glob, True),
           (CreateTable (destination_table_name cfg) cols (index cfg) True, True),
           (CreateTable (temp_dest_of (destination_table_name cfg) (sync_id cfg)) cols (index cfg) False, True),
           (ImportData (temp_dest_of (destination_table_name cfg) (sync_id cfg)) url, True),
           (DropTable (destination_table_name cfg), True),
           (RenameTable (temp_dest_of (destination_table_name cfg) (sync_id cfg)) (destination_table_name cfg), True),
           (BatchDeleteFolder (staging_bucket cfg) (gcs_relative_dir_of cfg), True)],
           w9)"
proof -
  obtain r0 wb where c0: "bigquery_get_client h w = (r0, wb)"
    by (cases "bigquery_get_client h w")
  show thesis
  proof (cases r0)
    case (Inl e)
    with c0 show thesis
      by (intro bigquery_client_raised) (simp_all add: bq2clickhouse_asset_def get_bq_table_columns_def and_then_def invoke_def acquire_def Let_def)
  next
    case (Inr u0)
    with c0 have k0: "bigquery_get_client h w = (Inr (), wb)"
      by simp
    obtain r1 w1 where c1: "export_to_gcs h (source_config cfg) (gcs_path_of cfg) wb = (r1, w1)"
      by (cases "export_to_gcs h (source_config cfg) (gcs_path_of cfg) wb")
    show thesis
    proof (cases r1)
      case (Inl e)
      with k0 c1 show thesis
        by (intro export_raised) (simp_all add: bq2clickhouse_asset_def get_bq_table_columns_def and_then_def invoke_def acquire_def Let_def)
    next
      case (Inr glob)
      with c1 have k1: "export_to_gcs h (source_config cfg) (gcs_path_of cfg) wb = (Inr glob, w1)"
        by simp
      obtain r2 w2 where c2: "get_table h (source_config cfg) w1 = (r2, w2)"
        by (cases "get_table h (source_config cfg) w1")
      show thesis
      proof (cases r2)
        case (Inl e)
        with k0 k1 c2 show thesis
          by (intro get_table_raised) (simp_all add: bq2clickhouse_asset_def get_bq_table_columns_def and_then_def invoke_def acquire_def Let_def)
      next
        case (Inr schema)
        with c2 have k2: "get_table h (source_config cfg) w1 = (Inr schema, w2)"
          by simp
        show thesis
        proof (cases "columns_loop schema []")
          case (Inl e)
          with k0 k1 k2 show thesis
            by (intro translation_failed) (simp_all add: bq2clickhouse_asset_def get_bq_table_columns_def and_then_def invoke_def acquire_def Let_def)
        next
          case (Inr cols)
          then have kc: "columns_loop schema [] = Inr cols" .
          obtain r3 w3 where c3: "gcs_to_http_url h glob w2 = (r3, w3)"
            by (cases "gcs_to_http_url h glob w2")
          show thesis
          proof (cases r3)
            case (Inl e)
            with k0 k1 k2 kc c3 show thesis
              by (intro url_raised) (simp_all add: bq2clickhouse_asset_def get_bq_table_columns_def and_then_def invoke_def acquire_def Let_def)
          next
            case (Inr url)
            with c3 have k3: "gcs_to_http_url h glob w2 = (Inr url, w3)"
              by simp
            obtain r4 wc where c4: "clickhouse_get_client h w3 = (r4, wc)"
              by (cases "clickhouse_get_client h w3")
            show thesis
            proof (cases r4)
              case (Inl e)
              with k0 k1 k2 kc k3 c4 show thesis
                by (intro clickhouse_client_raised) (simp_all add: bq2clickhouse_asset_def get_bq_table_columns_def and_then_def invoke_def acquire_def Let_def)
            next
              case (Inr u4)
              with c4 have k4: "clickhouse_get_client h w3 = (Inr (), wc)"
                by simp
              obtain r5 w4 where c5: "create_table h (destination_table_name cfg) cols (index cfg) True wc = (r5, w4)"
                by (cases "create_table h (destination_table_name cfg) cols (index cfg) True wc")
              show thesis
              proof (cases r5)
                case (Inl e)
                with k0 k1 k2 kc k3 k4 c5 show thesis
                  by (intro ensure_raised) (simp_all add: bq2clickhouse_asset_def get_bq_table_columns_def and_then_def invoke_def acquire_def Let_def)
              next
                case (Inr u5)
                with c5 have k5: "create_table h (destination_table_name cfg) cols (index cfg) True wc = (Inr (), w4)"
                  by simp
                obtain r6 w5 where c6: "create_table h (temp_dest_of (destination_table_name cfg) (sync_id cfg)) cols (index cfg) False w4 = (r6, w5)"
                  by (cases "create_table h (temp_dest_of (destination_table_name cfg) (sync_id cfg)) cols (index cfg) False w4")
                show thesis
                proof (cases r6)
                  case (Inl e)
                  with k0 k1 k2 kc k3 k4 k5 c6 show thesis
                    by (intro staging_raised) (simp_all add: bq2clickhouse_asset_def get_bq_table_columns_def and_then_def invoke_def acquire_def Let_def)
                next
                  case (Inr u6)
                  with c6 have k6: "create_table h (temp_dest_of (destination_table_name cfg) (sync_id cfg)) cols (index cfg) False w4 = (Inr (), w5)"
                    by simp
                  obtain r7 w6 where c7: "import_data h (temp_dest_of (destination_table_name cfg) (sync_id cfg)) url w5 = (r7, w6)"
                    by (cases "import_data h (temp_dest_of (destination_table_name cfg) (sync_id cfg)) url w5")
                  show thesis
                  proof (cases r7)
                    case (Inl e)
                    with k0 k1 k2 kc k3 k4 k5 k6 c7 show thesis
                      by (intro import_raised) (simp_all add: bq2clickhouse_asset_def get_bq_table_columns_def and_then_def invoke_def acquire_def Let_def)
                  next
                    case (Inr u7)
                    with c7 have k7: "import_data h (temp_dest_of (destination_table_name cfg) (sync_id cfg)) url w5 = (Inr (), w6)"
                      by simp
                    obtain r8 w7 where c8: "drop_table h (destination_table_name cfg) w6 = (r8, w7)"
                      by (cases "drop_table h (destination_table_name cfg) w6")
                    show thesis
                    proof (cases r8)
                      case (Inl e)
                      with k0 k1 k2 kc k3 k4 k5 k6 k7 c8 show thesis
                        by (intro drop_raised) (simp_all add: bq2clickhouse_asset_def get_bq_table_columns_def and_then_def invoke_def acquire_def Let_def)
                    next
                      case (Inr u8)
                      with c8 have k8: "drop_table h (destination_table_name cfg) w6 = (Inr (), w7)"
                        by simp
                      obtain r9 w8 where c9: "rename_table h (temp_dest_of (destination_table_name cfg) (sync_id cfg)) (destination_table_name cfg) w7 = (r9, w8)"
                        by (cases "rename_table h (temp_dest_of (destination_table_name cfg) (sync_id cfg)) (destination_table_name cfg) w7")
                      show thesis
                      proof (cases r9)
                        case (Inl e)
                        with k0 k1 k2 kc k3 k4 k5 k6 k7 k8 c9 show thesis
                          by (intro rename_raised) (simp_all add: bq2clickhouse_asset_def get_bq_table_columns_def and_then_def invoke_def acquire_def Let_def)
                      next
                        case (Inr u9)
                        with c9 have k9: "rename_table h (temp_dest_of (destination_table_name cfg) (sync_id cfg)) (destination_table_name cfg) w7 = (Inr (), w8)"
                          by simp
                        obtain r10 wg where c10: "gcs_get_client h w8 = (r10, wg)"
                          by (cases "gcs_get_client h w8")
                        show thesis
                        proof (cases r10)
                          case (Inl e)
                          with k0 k1 k2 kc k3 k4 k5 k6 k7 k8 k9 c10 show thesis
                            by (intro gcs_client_raised) (simp_all add: bq2clickhouse_asset_def get_bq_table_columns_def and_then_def invoke_def acquire_def Let_def)
                        next
                          case (Inr u10)
                          with c10 have k10: "gcs_get_client h w8 = (Inr (), wg)"
                            by simp
                          obtain r11 w9 where c11: "batch_delete_folder h (staging_bucket cfg) (gcs_relative_dir_of cfg) wg = (r11, w9)"
                            by (cases "batch_delete_folder h (staging_bucket cfg) (gcs_relative_dir_of cfg) wg")
                          show thesis
                          proof (cases r11)
                            case (Inl e)
                            with k0 k1 k2 kc k3 k4 k5 k6 k7 k8 k9 k10 c11 show thesis
                              by (intro cleanup_raised) (simp_all add: bq2clickhouse_asset_def get_bq_table_columns_def and_then_def invoke_def acquire_def Let_def)
                          next
                            case (Inr u11)
                            with c11 have k11: "batch_delete_folder h (staging_bucket cfg) (gcs_relative_dir_of cfg) wg = (Inr (), w9)"
                              by simp
                            from k0 k1 k2 kc k3 k4 k5 k6 k7 k8 k9 k10 k11 show thesis
                              by (intro succeeded) (simp_all add: bq2clickhouse_asset_def get_bq_table_columns_def and_then_def invoke_def acquire_def Let_def)
                          qed
                        qed
                      qed
                    qed
                  qed
                qed
              qed
            qed
          qed
        qed
      qed
    qed
  qed
qed

lemmas run_simps = run_result_def run_calls_def run_world_def

subsection \<open>Runs in the simulated world\<close>

lemmas sim_defs = sim_helpers_def sim_export_to_gcs_def sim_get_table_def sim_gcs_to_http_url_def
  sim_create_table_def sim_import_data_def sim_drop_table_def sim_rename_table_def
  sim_batch_delete_folder_def

lemmas asset_defs = bq2clickhouse_asset_def get_bq_table_columns_def and_then_def invoke_def acquire_def Let_def
  gcs_path_of_def gcs_relative_dir_of_def GCS_BUCKET_DIRECTORY_def temp_dest_of_def replace_dash_def
  COLUMN_MAP_def COLUMN_MAP_items_def

lemma job_simps:
  "source_config job = \<lparr>project_id = ''p'', dataset_name = ''d'', table_name = ''t''\<rparr>"
  "gcs_path_of job = ''gs://b/bq2clickhouse/s-1/ev''"
  "gcs_relative_dir_of job = ''bq2clickhouse/s-1/ev''"
  "staging_bucket job = ''b''"
  "destination_table_name job = ''ev''"
  "index job = None"
  "asset_name job = ''a''"
  "sync_id job = ''s-1''"
  "temp_dest_of ''ev'' ''s-1'' = ''ev_s_1''"
  by (simp_all add: job_def gcs_path_of_def gcs_relative_dir_of_def GCS_BUCKET_DIRECTORY_def
      temp_dest_of_def replace_dash_def)

lemma nested_run:
  "bq2clickhouse_asset (sim_helpers no_faults) job ([], nested_world) =
     (Inl (UnsupportedTableColumn (unsupported_message ''tags'' ''RECORD'')),
      [(ExportToGcs (source_config job) ''gs://b/bq2clickhouse/s-1/ev'', True),
       (GetTable (source_config job), True)],
      nested_world\<lparr>gcs_objects := [''gs://b/bq2clickhouse/s-1/ev/000000000000.parquet'']\<rparr>)"
  by (simp add: asset_defs sim_defs job_def nested_world_def no_faults_def)

lemma flat_run:
  "bq2clickhouse_asset (sim_helpers no_faults) job ([], flat_world) =
     (Inr \<lparr>success = True, asset = ''a'', gcs_glob = ''gs://b/bq2clickhouse/s-1/ev/*.parquet'',
           clickhouse_temp_table = ''ev_s_1''\<rparr>,
      [(ExportToGcs (source_config job) ''gs://b/bq2clickhouse/s-1/ev'', True),
       (GetTable (source_config job), True),
       (GcsToHttpUrl ''gs://b/bq2clickhouse/s-1/ev/*.parquet'', True),
       (CreateTable ''ev'' [(''id'', ''Int64''), (''name'', ''String'')] None True, True),
       (CreateTable ''ev_s_1'' [(''id'', ''Int64''), (''name'', ''String'')] None False, True),
       (ImportData ''ev_s_1'' ''https://storage.googleapis.com/b/bq2clickhouse/s-1/ev/*.parquet'', True),
       (DropTable ''ev'', True),
       (RenameTable ''ev_s_1'' ''ev'', True),
       (BatchDeleteFolder ''b'' ''bq2clickhouse/s-1/ev'', True)],
      flat_world\<lparr>gcs_objects := [],
        ch_tables := [(''ev'', [(''id'', ''Int64''), (''name'', ''String'')],
                       [''https://storage.googleapis.com/b/bq2clickhouse/s-1/ev/*.parquet''])]\<rparr>)"
  by (simp add: asset_defs sim_defs job_def flat_world_def no_faults_def)

lemma import_fault_run:
  "bq2clickhouse_asset (sim_helpers import_faults) job ([], flat_world) =
     (Inl (ExternalError ''import_data''),
      [(ExportToGcs (source_config job) ''gs://b/bq2clickhouse/s-1/ev'', True),
       (GetTable (source_config job), True),
       (GcsToHttpUrl ''gs://b/bq2clickhouse/s-1/ev/*.parquet'', True),
       (CreateTable ''ev'' [(''id'', ''Int64''), (''name'', ''String'')] None True, True),
       (CreateTable ''ev_s_1'' [(''id'', ''Int64''), (''name'', ''String'')] None False, True),
       (ImportData ''ev_s_1'' ''https://storage.googleapis.com/b/bq2clickhouse/s-1/ev/*.parquet'', False)],
      flat_world\<lparr>gcs_objects := [''gs://b/bq2clickhouse/s-1/ev/000000000000.parquet''],
        ch_tables := [(''ev'', [(''id'', ''Int64''), (''name'', ''String'')], []),
                      (''ev_s_1'', [(''id'', ''Int64''), (''name'', ''String'')], [])]\<rparr>)"
  by (simp add: asset_defs sim_defs job_def flat_world_def)

lemma rename_fault_run:
  "bq2clickhouse_asset (sim_helpers rename_faults) job ([], flat_world) =
     (Inl (ExternalError ''rename_table''),
      [(ExportToGcs (source_config job) ''gs://b/bq2clickhouse/s-1/ev'', True),
       (GetTable (source_config job), True),
       (GcsToHttpUrl ''gs://b/bq2clickhouse/s-1/ev/*.parquet'', True),
       (CreateTable ''ev'' [(''id'', ''Int64''), (''name'', ''String'')] None True, True),
       (CreateTable ''ev_s_1'' [(''id'', ''Int64''), (''name'', ''String'')] None False, True),
       (ImportData ''ev_s_1'' ''https://storage.googleapis.com/b/bq2clickhouse/s-1/ev/*.parquet'', True),
       (DropTable ''ev'', True),
       (RenameTable ''ev_s_1'' ''ev'', False)],
      flat_world\<lparr>gcs_objects := [''gs://b/bq2clickhouse/s-1/ev/000000000000.parquet''],
        ch_tables := [(''ev_s_1'', [(''id'', ''Int64''), (''name'', ''String'')],
                       [''https://storage.googleapis.com/b/bq2clickhouse/s-1/ev/*.parquet''])]\<rparr>)"
  by (simp add: asset_defs sim_defs job_def flat_world_def)


lemma sim_export_job:
  "export_to_gcs (sim_helpers no_faults) (source_config job) (gcs_path_of job) w =
     (Inr ''gs://b/bq2clickhouse/s-1/ev/*.parquet'',
      w\<lparr>gcs_objects := gcs_objects w @ [''gs://b/bq2clickhouse/s-1/ev/000000000000.parquet'']\<rparr>)"
  by (simp add: sim_helpers_def sim_export_to_gcs_def no_faults_def job_simps)

lemma sim_get_table_job:
  "get_table (sim_helpers no_faults) (source_config job) w = (Inr (bq_schema w), w)"
  by (simp add: sim_helpers_def sim_get_table_def no_faults_def)

lemma sim_url_job:
  "gcs_to_http_url (sim_helpers no_faults) ''gs://b/bq2clickhouse/s-1/ev/*.parquet'' w =
     (Inr ''https://storage.googleapis.com/b/bq2clickhouse/s-1/ev/*.parquet'', w)"
  by (simp add: sim_helpers_def sim_gcs_to_http_url_def no_faults_def)

lemma flat_columns:
  "columns_loop (bq_schema flat_world) [] = Inr [(''id'', ''Int64''), (''name'', ''String'')]"
  by (simp add: flat_world_def COLUMN_MAP_def COLUMN_MAP_items_def)

lemma nested_columns:
  "columns_loop (bq_schema nested_world) [] =
     Inl (UnsupportedTableColumn (unsupported_message ''tags'' ''RECORD''))"
  by (simp add: nested_world_def COLUMN_MAP_def COLUMN_MAP_items_def)

lemma flat_export:
  "export_to_gcs (sim_helpers no_faults) (source_config job) (gcs_path_of job) flat_world =
     (Inr ''gs://b/bq2clickhouse/s-1/ev/*.parquet'', staged_world)"
  by (simp add: sim_export_job staged_world_def flat_world_def)

lemma flat_get_table:
  "get_table (sim_helpers no_faults) (source_config job) staged_world = (Inr (bq_schema flat_world), staged_world)"
  by (simp add: sim_get_table_job staged_world_def)

lemma flat_url:
  "gcs_to_http_url (sim_helpers no_faults) ''gs://b/bq2clickhouse/s-1/ev/*.parquet'' staged_world =
     (Inr ''https://storage.googleapis.com/b/bq2clickhouse/s-1/ev/*.parquet'', staged_world)"
  by (rule sim_url_job)

lemma flat_ensure:
  "create_table (sim_helpers no_faults) ''ev'' [(''id'', ''Int64''), (''name'', ''String'')] None True staged_world =
     (Inr (), ensured_world)"
  by (simp add: sim_helpers_def sim_create_table_def no_faults_def staged_world_def ensured_world_def flat_world_def)

lemma flat_staging:
  "create_table (sim_helpers no_faults) ''ev_s_1'' [(''id'', ''Int64''), (''name'', ''String'')] None False ensured_world =
     (Inr (), created_world)"
  by (simp add: sim_helpers_def sim_create_table_def no_faults_def staged_world_def ensured_world_def
      created_world_def flat_world_def)

lemma sim_clients:
  "bigquery_get_client (sim_helpers faults) w = (Inr (), w)"
  "clickhouse_get_client (sim_helpers faults) w = (Inr (), w)"
  "gcs_get_client (sim_helpers faults) w = (Inr (), w)"
  by (simp_all add: sim_helpers_def)

lemma flat_import:
  "import_data (sim_helpers no_faults) ''ev_s_1''
     ''https://storage.googleapis.com/b/bq2clickhouse/s-1/ev/*.parquet'' created_world =
     (Inr (), loaded_world)"
  by (simp add: sim_helpers_def sim_import_data_def no_faults_def staged_world_def created_world_def
      loaded_world_def flat_world_def)

lemma flat_drop:
  "drop_table (sim_helpers no_faults) ''ev'' loaded_world = (Inr (), dropped_world)"
  by (simp add: sim_helpers_def sim_drop_table_def no_faults_def staged_world_def loaded_world_def
      dropped_world_def flat_world_def)

lemma flat_rename:
  "rename_table (sim_helpers no_faults) ''ev_s_1'' ''ev'' dropped_world = (Inr (), renamed_world)"
  by (simp add: sim_helpers_def sim_rename_table_def no_faults_def staged_world_def dropped_world_def
      renamed_world_def flat_world_def)

lemma flat_cleanup:
  "batch_delete_folder (sim_helpers no_faults) ''b'' ''bq2clickhouse/s-1/ev'' renamed_world =
     (Inr (), cleaned_world)"
  by (simp add: sim_helpers_def sim_batch_delete_folder_def no_faults_def staged_world_def
      renamed_world_def cleaned_world_def flat_world_def)

lemma flat_run_world:
  "cleaned_world = flat_world\<lparr>gcs_objects := [],
        ch_tables := [(''ev'', [(''id'', ''Int64''), (''name'', ''String'')],
                       [''https://storage.googleapis.com/b/bq2clickhouse/s-1/ev/*.parquet''])]\<rparr>"
  by (simp add: cleaned_world_def renamed_world_def staged_world_def flat_world_def)

lemma job_chain:
  "create_table (sim_helpers no_faults) (destination_table_name job) [(''id'', ''Int64''), (''name'', ''String'')] (index job) True staged_world =
     (Inr (), ensured_world)"
  "create_table (sim_helpers no_faults) (temp_dest_of (destination_table_name job) (sync_id job))
     [(''id'', ''Int64''), (''name'', ''String'')] (index job) False ensured_world = (Inr (), created_world)"
  "import_data (sim_helpers no_faults) (temp_dest_of (destination_table_name job) (sync_id job))
     ''https://storage.googleapis.com/b/bq2clickhouse/s-1/ev/*.parquet'' created_world = (Inr (), loaded_world)"
  "drop_table (sim_helpers no_faults) (destination_table_name job) loaded_world = (Inr (), dropped_world)"
  "rename_table (sim_helpers no_faults) (temp_dest_of (destination_table_name job) (sync_id job))
     (destination_table_name job) dropped_world = (Inr (), renamed_world)"
  "batch_delete_folder (sim_helpers no_faults) (staging_bucket job) (gcs_relative_dir_of job) renamed_world =
     (Inr (), cleaned_world)"
  by (simp_all add: job_simps flat_ensure flat_staging flat_import flat_drop flat_rename flat_cleanup)

lemma nested_export:
  "export_to_gcs (sim_helpers no_faults) (source_config job) (gcs_path_of job) nested_world =
     (Inr ''gs://b/bq2clickhouse/s-1/ev/*.parquet'', nested_world\<lparr>gcs_objects := [''gs://b/bq2clickhouse/s-1/ev/000000000000.parquet'']\<rparr>)"
  by (simp add: sim_export_job nested_world_def)

lemma planned_job:
  "planned_destination_calls job cols url =
     [CreateTable ''ev'' cols None True, CreateTable ''ev_s_1'' cols None False,
      ImportData ''ev_s_1'' url, DropTable ''ev'', RenameTable ''ev_s_1'' ''ev'']"
  by (simp add: planned_destination_calls_def job_simps)

section \<open>Failure of the translation\<close>

text \<open>
  C2, as stated, fails in its last part: the asset exports the table before it translates the
  schema, so when the translation fails the exported shard is already at the job's staging
  path. In the simulated world, with a source table that has a RECORD column and an empty
  bucket, the run fails with \<^verbatim>\<open>UnsupportedTableColumn\<close> and leaves one object under the
  job's path.
\<close>

theorem translation_failure_after_export:
  "gcs_objects nested_world = []
   \<and> run_result (sim_helpers no_faults) job nested_world =
       Inl (UnsupportedTableColumn (unsupported_message ''tags'' ''RECORD''))
   \<and> gcs_objects (run_world (sim_helpers no_faults) job nested_world) =
       [''gs://b/bq2clickhouse/s-1/ev/000000000000.parquet'']
   \<and> prefix (gcs_path_of job) ''gs://b/bq2clickhouse/s-1/ev/000000000000.parquet''"
proof -
  have "gcs_objects nested_world = []"
    by (simp add: nested_world_def)
  then show ?thesis
    by (simp add: run_simps nested_run job_simps)
qed

text \<open>
  C2, amended. In every run in which the BigQuery client is acquired, the export and the fetch
  of the schema return and the translation then fails with \<^verbatim>\<open>UnsupportedTableColumn\<close>,
  the run fails with that error after exactly two calls, the export to the job's staging path
  and the fetch of the schema, both of which returned: \<^verbatim>\<open>batch_delete_folder\<close> is never
  invoked, no destination-engine call is made, and the world is left as the export and the
  fetch left it, with whatever the export wrote at the staging path still there.
\<close>

theorem translation_failure_frame:
  assumes "bigquery_get_client h w = (Inr (), wb)"
      and "export_to_gcs h (source_config cfg) (gcs_path_of cfg) wb = (Inr glob, w1)"
      and "get_table h (source_config cfg) w1 = (Inr schema, w2)"
      and "columns_loop schema [] = Inl (UnsupportedTableColumn m)"
  shows "run_result h cfg w = Inl (UnsupportedTableColumn m)
       \<and> run_calls h cfg w = [(ExportToGcs (source_config cfg) (gcs_path_of cfg), True), (GetTable (source_config cfg), True)]
       \<and> (\<forall>x \<in> set (run_calls h cfg w). \<not> is_cleanup_call (fst x) \<and> \<not> is_destination_call (fst x))
       \<and> run_world h cfg w = w2"
  using assms
  by (cases rule: run_cases[where h=h and cfg=cfg and w=w]) (simp_all add: run_simps)

theorem translation_failure_frame_witness:
  "bigquery_get_client (sim_helpers no_faults) nested_world = (Inr (), nested_world)
   \<and> export_to_gcs (sim_helpers no_faults) (source_config job) (gcs_path_of job) nested_world =
     (Inr ''gs://b/bq2clickhouse/s-1/ev/*.parquet'',
      nested_world\<lparr>gcs_objects := [''gs://b/bq2clickhouse/s-1/ev/000000000000.parquet'']\<rparr>)
   \<and> get_table (sim_helpers no_faults) (source_config job)
        (nested_world\<lparr>gcs_objects := [''gs://b/bq2clickhouse/s-1/ev/000000000000.parquet'']\<rparr>) =
       (Inr (bq_schema nested_world),
        nested_world\<lparr>gcs_objects := [''gs://b/bq2clickhouse/s-1/ev/000000000000.parquet'']\<rparr>)
   \<and> columns_loop (bq_schema nested_world) [] =
       Inl (UnsupportedTableColumn (unsupported_message ''tags'' ''RECORD''))
   \<and> run_result (sim_helpers no_faults) job nested_world =
       Inl (UnsupportedTableColumn (unsupported_message ''tags'' ''RECORD''))
   \<and> run_calls (sim_helpers no_faults) job nested_world =
       [(ExportToGcs (source_config job) (gcs_path_of job), True), (GetTable (source_config job), True)]
   \<and> run_world (sim_helpers no_faults) job nested_world =
       nested_world\<lparr>gcs_objects := [''gs://b/bq2clickhouse/s-1/ev/000000000000.parquet'']\<rparr>"
proof -
  let ?w1 = "nested_world\<lparr>gcs_objects := [''gs://b/bq2clickhouse/s-1/ev/000000000000.parquet'']\<rparr>"
  have e: "export_to_gcs (sim_helpers no_faults) (source_config job) (gcs_path_of job) nested_world =
             (Inr ''gs://b/bq2clickhouse/s-1/ev/*.parquet'', ?w1)"
    by (simp add: sim_export_job nested_world_def)
  have g: "get_table (sim_helpers no_faults) (source_config job) ?w1 = (Inr (bq_schema nested_world), ?w1)"
    by (simp add: sim_get_table_job)
  have t: "columns_loop (bq_schema nested_world) [] =
             Inl (UnsupportedTableColumn (unsupported_message ''tags'' ''RECORD''))"
    by (rule nested_columns)
  have b: "bigquery_get_client (sim_helpers no_faults) nested_world = (Inr (), nested_world)"
    by (rule sim_clients)
  show ?thesis
    using b e g t translation_failure_frame [OF b e g t] by simp
qed

section \<open>The staged load\<close>

text \<open>
  C7. In every run that reaches the load stage (the BigQuery client, the export, the fetch of
  the schema, the translation, the load URL and the Clickhouse client have been obtained), the
  asset performs through the destination client, in this order and each on the world the
  previous one left: \<^verbatim>\<open>create_table\<close> of the live table with \<^verbatim>\<open>if_not_exists=True\<close>,
  \<^verbatim>\<open>create_table\<close> of the staging table with \<^verbatim>\<open>if_not_exists=False\<close>,
  \<^verbatim>\<open>import_data\<close> of the load URL into the staging table, then the drop and the rename.
  The first of them that raises ends the run with its error, on the world it left, after
  exactly the destination calls up to it; when all return, and the GCS client and the cleanup
  return too, the run returns its result on the world the cleanup left.
\<close>

theorem staged_load_order:
  assumes "bigquery_get_client h w = (Inr (), wb)"
      and "export_to_gcs h (source_config cfg) (gcs_path_of cfg) wb = (Inr glob, w1)"
      and "get_table h (source_config cfg) w1 = (Inr schema, w2)"
      and "columns_loop schema [] = Inr cols"
      and "gcs_to_http_url h glob w2 = (Inr url, w3)"
      and "clickhouse_get_client h w3 = (Inr (), wc)"
  shows
  "(create_table h (destination_table_name cfg) cols (index cfg) True wc = (Inl e, w4) \<longrightarrow>
       run_result h cfg w = Inl e
       \<and> destination_calls (run_calls h cfg w) = take 1 (planned_destination_calls cfg cols url)
       \<and> run_world h cfg w = w4)
   \<and> (create_table h (destination_table_name cfg) cols (index cfg) True wc = (Inr (), w4) \<longrightarrow>
    (create_table h (temp_dest_of (destination_table_name cfg) (sync_id cfg)) cols (index cfg) False w4 = (Inl e, w5) \<longrightarrow>
        run_result h cfg w = Inl e
        \<and> destination_calls (run_calls h cfg w) = take 2 (planned_destination_calls cfg cols url)
        \<and> run_world h cfg w = w5)
    \<and> (create_table h (temp_dest_of (destination_table_name cfg) (sync_id cfg)) cols (index cfg) False w4 = (Inr (), w5) \<longrightarrow>
     (import_data h (temp_dest_of (destination_table_name cfg) (sync_id cfg)) url w5 = (Inl e, w6) \<longrightarrow>
         run_result h cfg w = Inl e
         \<and> destination_calls (run_calls h cfg w) = take 3 (planned_destination_calls cfg cols url)
         \<and> run_world h cfg w = w6)
     \<and> (import_data h (temp_dest_of (destination_table_name cfg) (sync_id cfg)) url w5 = (Inr (), w6) \<longrightarrow>
      (drop_table h (destination_table_name cfg) w6 = (Inl e, w7) \<longrightarrow>
          run_result h cfg w = Inl e
          \<and> destination_calls (run_calls h cfg w) = take 4 (planned_destination_calls cfg cols url)
          \<and> run_world h cfg w = w7)
      \<and> (drop_table h (destination_table_name cfg) w6 = (Inr (), w7) \<longrightarrow>
       (rename_table h (temp_dest_of (destination_table_name cfg) (sync_id cfg)) (destination_table_name cfg) w7 = (Inl e, w8) \<longrightarrow>
           run_result h cfg w = Inl e
           \<and> destination_calls (run_calls h cfg w) = planned_destination_calls cfg cols url
           \<and> run_world h cfg w = w8)
       \<and> (rename_table h (temp_dest_of (destination_table_name cfg) (sync_id cfg)) (destination_table_name cfg) w7 = (Inr (), w8) \<longrightarrow>
        (gcs_get_client h w8 = (Inl e, wg) \<longrightarrow>
            run_result h cfg w = Inl e
            \<and> destination_calls (run_calls h cfg w) = planned_destination_calls cfg cols url
            \<and> run_world h cfg w = wg)
        \<and> (gcs_get_client h w8 = (Inr (), wg) \<longrightarrow>
         (batch_delete_folder h (staging_bucket cfg) (gcs_relative_dir_of cfg) wg = (Inl e, w9) \<longrightarrow>
             run_result h cfg w = Inl e
             \<and> destination_calls (run_calls h cfg w) = planned_destination_calls cfg cols url
             \<and> run_world h cfg w = w9)
         \<and> (batch_delete_folder h (staging_bucket cfg) (gcs_relative_dir_of cfg) wg = (Inr (), w9) \<longrightarrow>
          run_result h cfg w =
            Inr \<lparr>success = True, asset = asset_name cfg, gcs_glob = glob,
                 clickhouse_temp_table = temp_dest_of (destination_table_name cfg) (sync_id cfg)\<rparr>
          \<and> destination_calls (run_calls h cfg w) = planned_destination_calls cfg cols url
          \<and> run_world h cfg w = w9)))))))"
  using assms
  by (cases rule: run_cases[where h=h and cfg=cfg and w=w])
     (auto simp add: run_simps destination_calls_def planned_destination_calls_def)

theorem staged_load_order_witness:
  "bigquery_get_client (sim_helpers no_faults) flat_world = (Inr (), flat_world)
   \<and> export_to_gcs (sim_helpers no_faults) (source_config job) (gcs_path_of job) flat_world =
       (Inr ''gs://b/bq2clickhouse/s-1/ev/*.parquet'', staged_world)
   \<and> get_table (sim_helpers no_faults) (source_config job) staged_world = (Inr (bq_schema flat_world), staged_world)
   \<and> columns_loop (bq_schema flat_world) [] = Inr [(''id'', ''Int64''), (''name'', ''String'')]
   \<and> gcs_to_http_url (sim_helpers no_faults) ''gs://b/bq2clickhouse/s-1/ev/*.parquet'' staged_world =
       (Inr ''https://storage.googleapis.com/b/bq2clickhouse/s-1/ev/*.parquet'', staged_world)
   \<and> clickhouse_get_client (sim_helpers no_faults) staged_world = (Inr (), staged_world)
   \<and> run_result (sim_helpers no_faults) job flat_world =
       Inr \<lparr>success = True, asset = ''a'', gcs_glob = ''gs://b/bq2clickhouse/s-1/ev/*.parquet'',
            clickhouse_temp_table = ''ev_s_1''\<rparr>
   \<and> destination_calls (run_calls (sim_helpers no_faults) job flat_world) =
       [CreateTable ''ev'' [(''id'', ''Int64''), (''name'', ''String'')] None True,
        CreateTable ''ev_s_1'' [(''id'', ''Int64''), (''name'', ''String'')] None False,
        ImportData ''ev_s_1'' ''https://storage.googleapis.com/b/bq2clickhouse/s-1/ev/*.parquet'',
        DropTable ''ev'', RenameTable ''ev_s_1'' ''ev'']
   \<and> run_world (sim_helpers no_faults) job flat_world = cleaned_world
   \<and> ch_tables cleaned_world =
       [(''ev'', [(''id'', ''Int64''), (''name'', ''String'')], [''https://storage.googleapis.com/b/bq2clickhouse/s-1/ev/*.parquet''])]"
proof -
  note reach = sim_clients(1)[of no_faults flat_world] flat_export flat_get_table flat_columns flat_url
      sim_clients(2)[of no_faults staged_world]
  have w: "ch_tables cleaned_world =
       [(''ev'', [(''id'', ''Int64''), (''name'', ''String'')], [''https://storage.googleapis.com/b/bq2clickhouse/s-1/ev/*.parquet''])]"
    by (simp add: cleaned_world_def renamed_world_def)
  show ?thesis
    using reach w job_chain sim_clients(3)[of no_faults renamed_world]
      staged_load_order [OF reach, where e = "ExternalError []" and ?w4.0 = ensured_world
        and ?w5.0 = created_world and ?w6.0 = loaded_world and ?w7.0 = dropped_world
        and ?w8.0 = renamed_world and wg = renamed_world and ?w9.0 = cleaned_world]
    by (simp add: planned_job job_simps)
qed

text \<open>
  C10. In every run that reaches the load stage, the live table is ensured with the translated
  columns and the job's index; every \<^verbatim>\<open>create_table\<close> call of the run carries these
  same columns and this same index; and a \<^verbatim>\<open>rename_table\<close> call renames the staging
  table, which was created with these columns and this index, to the live name. The calls are
  performed: the world the run leaves is the one that \<^verbatim>\<open>create_table\<close> with these
  columns and this index on the live name and then on the staging name, the bulk load, the
  drop, the rename of the staging table to the live name and the cleanup produce in this
  order, up to the first of them that raises.
\<close>

theorem same_schema_for_both_tables:
  assumes "bigquery_get_client h w = (Inr (), wb)"
      and "export_to_gcs h (source_config cfg) (gcs_path_of cfg) wb = (Inr glob, w1)"
      and "get_table h (source_config cfg) w1 = (Inr schema, w2)"
      and "columns_loop schema [] = Inr cols"
      and "gcs_to_http_url h glob w2 = (Inr url, w3)"
      and "clickhouse_get_client h w3 = (Inr (), wc)"
      and "create_table h (destination_table_name cfg) cols (index cfg) True wc = (r4, w4)"
      and "create_table h (temp_dest_of (destination_table_name cfg) (sync_id cfg)) cols (index cfg) False w4 = (r5, w5)"
      and "import_data h (temp_dest_of (destination_table_name cfg) (sync_id cfg)) url w5 = (r6, w6)"
      and "drop_table h (destination_table_name cfg) w6 = (r7, w7)"
      and "rename_table h (temp_dest_of (destination_table_name cfg) (sync_id cfg)) (destination_table_name cfg) w7 = (r8, w8)"
      and "gcs_get_client h w8 = (rg, wg)"
      and "batch_delete_folder h (staging_bucket cfg) (gcs_relative_dir_of cfg) wg = (r9, w9)"
  shows "(\<exists>ok. (CreateTable (destination_table_name cfg) cols (index cfg) True, ok) \<in> set (run_calls h cfg w))
       \<and> (\<forall>n cs ix ine ok. (CreateTable n cs ix ine, ok) \<in> set (run_calls h cfg w) \<longrightarrow> cs = cols \<and> ix = index cfg)
       \<and> (\<forall>old new ok. (RenameTable old new, ok) \<in> set (run_calls h cfg w) \<longrightarrow>
             old = temp_dest_of (destination_table_name cfg) (sync_id cfg) \<and> new = destination_table_name cfg
             \<and> (CreateTable old cols (index cfg) False, True) \<in> set (run_calls h cfg w))
       \<and> run_world h cfg w =
           (if isl r4 then w4 else if isl r5 then w5 else if isl r6 then w6 else if isl r7 then w7
            else if isl r8 then w8 else if isl rg then wg else w9)"
  using assms
  by (cases rule: run_cases[where h=h and cfg=cfg and w=w]) (auto simp add: run_simps)

theorem same_schema_for_both_tables_witness:
  "bigquery_get_client (sim_helpers no_faults) flat_world = (Inr (), flat_world)
   \<and> export_to_gcs (sim_helpers no_faults) (source_config job) (gcs_path_of job) flat_world =
       (Inr ''gs://b/bq2clickhouse/s-1/ev/*.parquet'', staged_world)
   \<and> get_table (sim_helpers no_faults) (source_config job) staged_world = (Inr (bq_schema flat_world), staged_world)
   \<and> columns_loop (bq_schema flat_world) [] = Inr [(''id'', ''Int64''), (''name'', ''String'')]
   \<and> gcs_to_http_url (sim_helpers no_faults) ''gs://b/bq2clickhouse/s-1/ev/*.parquet'' staged_world =
       (Inr ''https://storage.googleapis.com/b/bq2clickhouse/s-1/ev/*.parquet'', staged_world)
   \<and> clickhouse_get_client (sim_helpers no_faults) staged_world = (Inr (), staged_world)
   \<and> (CreateTable ''ev'' [(''id'', ''Int64''), (''name'', ''String'')] None True, True)
        \<in> set (run_calls (sim_helpers no_faults) job flat_world)
   \<and> (RenameTable ''ev_s_1'' ''ev'', True) \<in> set (run_calls (sim_helpers no_faults) job flat_world)
   \<and> (CreateTable ''ev_s_1'' [(''id'', ''Int64''), (''name'', ''String'')] None False, True)
        \<in> set (run_calls (sim_helpers no_faults) job flat_world)
   \<and> run_world (sim_helpers no_faults) job flat_world = cleaned_world
   \<and> ch_tables cleaned_world =
       [(''ev'', [(''id'', ''Int64''), (''name'', ''String'')], [''https://storage.googleapis.com/b/bq2clickhouse/s-1/ev/*.parquet''])]"
proof -
  note reach = sim_clients(1)[of no_faults flat_world] flat_export flat_get_table flat_columns flat_url
      sim_clients(2)[of no_faults staged_world]
  note inst = same_schema_for_both_tables [OF reach job_chain(1-5)
      sim_clients(3)[of no_faults renamed_world] job_chain(6)]
  have r: "(RenameTable ''ev_s_1'' ''ev'', True) \<in> set (run_calls (sim_helpers no_faults) job flat_world)"
    by (simp add: run_calls_def flat_run)
  have e: "(CreateTable ''ev'' [(''id'', ''Int64''), (''name'', ''String'')] None True, True)
        \<in> set (run_calls (sim_helpers no_faults) job flat_world)"
    by (simp add: run_calls_def flat_run)
  from inst
  have "(RenameTable ''ev_s_1'' ''ev'', True) \<in> set (run_calls (sim_helpers no_faults) job flat_world) \<longrightarrow>
        (CreateTable ''ev_s_1'' [(''id'', ''Int64''), (''name'', ''String'')] (index job) False, True)
          \<in> set (run_calls (sim_helpers no_faults) job flat_world)"
    by blast
  with r have c: "(CreateTable ''ev_s_1'' [(''id'', ''Int64''), (''name'', ''String'')] None False, True)
        \<in> set (run_calls (sim_helpers no_faults) job flat_world)"
    by (simp add: job_simps)
  from inst have v: "run_world (sim_helpers no_faults) job flat_world = cleaned_world"
    by simp
  have w: "ch_tables cleaned_world =
       [(''ev'', [(''id'', ''Int64''), (''name'', ''String'')], [''https://storage.googleapis.com/b/bq2clickhouse/s-1/ev/*.parquet''])]"
    by (simp add: cleaned_world_def renamed_world_def)
  from reach r e c v w show ?thesis
    by simp
qed

text \<open>
  C5. If the bulk load \<^verbatim>\<open>import_data\<close> raises, the run fails; no call of the swap stage
  (\<^verbatim>\<open>drop_table\<close>, \<^verbatim>\<open>rename_table\<close>) and no call of the cleanup stage
  (\<^verbatim>\<open>batch_delete_folder\<close>) is made in that run, so the live table is not touched, the
  staging table is not dropped and the staged objects are not deleted; the failing bulk load
  is the last call of the run.
\<close>

theorem load_failure_frame:
  assumes "(ImportData t u, False) \<in> set (run_calls h cfg w)"
  shows "isl (run_result h cfg w)
       \<and> (\<forall>x \<in> set (run_calls h cfg w). stage_of (fst x) \<noteq> Swap \<and> stage_of (fst x) \<noteq> Cleanup)
       \<and> last (run_calls h cfg w) = (ImportData t u, False)"
  using assms
  by (cases rule: run_cases[where h=h and cfg=cfg and w=w]) (simp_all add: run_simps)

theorem load_failure_frame_witness:
  "(ImportData ''ev_s_1'' ''https://storage.googleapis.com/b/bq2clickhouse/s-1/ev/*.parquet'', False)
      \<in> set (run_calls (sim_helpers import_faults) job flat_world)
   \<and> isl (run_result (sim_helpers import_faults) job flat_world)
   \<and> list_all (\<lambda>x. stage_of (fst x) \<noteq> Swap \<and> stage_of (fst x) \<noteq> Cleanup)
        (run_calls (sim_helpers import_faults) job flat_world)
   \<and> last (run_calls (sim_helpers import_faults) job flat_world) =
       (ImportData ''ev_s_1'' ''https://storage.googleapis.com/b/bq2clickhouse/s-1/ev/*.parquet'', False)"
proof -
  have h: "(ImportData ''ev_s_1'' ''https://storage.googleapis.com/b/bq2clickhouse/s-1/ev/*.parquet'', False)
             \<in> set (run_calls (sim_helpers import_faults) job flat_world)"
    by (simp add: run_calls_def import_fault_run)
  show ?thesis
    using h load_failure_frame [OF h] by (simp add: list_all_iff)
qed

section \<open>Order of the stages, swap and cleanup\<close>

text \<open>
  C8, as stated, fails in the order of its first two stages: the asset exports before it
  translates. In the simulated world the run on a table with a RECORD column passes through
  the stages Export, Translate, which is not sorted in the order Translate, Export, Load, Swap,
  Cleanup.
\<close>

theorem stage_order_export_first:
  "stages_of_run (run_calls (sim_helpers no_faults) job nested_world) = [Export, Translate]
   \<and> \<not> sorted (map spec_stage_rank (stages_of_run (run_calls (sim_helpers no_faults) job nested_world)))"
  by (simp add: run_simps nested_run stages_of_run_def)

text \<open>
  C8, amended. Every run executes its stages in the order Export, Translate, Load (derive the
  load URL, ensure the destination, create the staging table, bulk-load), Swap (drop, rename),
  Cleanup: the stages of its calls are a prefix of that sequence. It halts at the first failure:
  only the last call of a run can have raised, a run in which a call raised ends with an
  error, and a run that returns a result has made all nine calls, each of which returned.
  Step by step: each step runs on the world the previous step left; the first step that fails,
  be it the acquisition of a client, a call or the translation of the schema, ends the run
  with its error, on the world it left, after the stages run so far; when no step fails the
  run returns its result after all nine calls.
\<close>

theorem run_stage_order:
  "prefix (stages_of_run (run_calls h cfg w)) [Export, Translate, Load, Load, Load, Load, Swap, Swap, Cleanup]
   \<and> sorted (map code_stage_rank (stages_of_run (run_calls h cfg w)))
   \<and> (\<forall>x \<in> set (butlast (run_calls h cfg w)). snd x)
   \<and> ((\<exists>x \<in> set (run_calls h cfg w). \<not> snd x) \<longrightarrow> isl (run_result h cfg w))
   \<and> (\<not> isl (run_result h cfg w) \<longrightarrow> length (run_calls h cfg w) = 9 \<and> (\<forall>x \<in> set (run_calls h cfg w). snd x))
   \<and>
   (bigquery_get_client h w = (Inl e, wb) \<longrightarrow>
       run_ends h cfg w (Inl e) [] wb)
   \<and> (bigquery_get_client h w = (Inr (), wb) \<longrightarrow>
    (export_to_gcs h (source_config cfg) (gcs_path_of cfg) wb = (Inl e, w1) \<longrightarrow>
        run_ends h cfg w (Inl e) [Export] w1)
    \<and> (export_to_gcs h (source_config cfg) (gcs_path_of cfg) wb = (Inr glob, w1) \<longrightarrow>
     (get_table h (source_config cfg) w1 = (Inl e, w2) \<longrightarrow>
         run_ends h cfg w (Inl e) [Export, Translate] w2)
     \<and> (get_table h (source_config cfg) w1 = (Inr schema, w2) \<longrightarrow>
      (columns_loop schema [] = Inl e \<longrightarrow>
          run_ends h cfg w (Inl e) [Export, Translate] w2)
      \<and> (columns_loop schema [] = Inr cols \<longrightarrow>
       (gcs_to_http_url h glob w2 = (Inl e, w3) \<longrightarrow>
           run_ends h cfg w (Inl e) [Export, Translate, Load] w3)
       \<and> (gcs_to_http_url h glob w2 = (Inr url, w3) \<longrightarrow>
        (clickhouse_get_client h w3 = (Inl e, wc) \<longrightarrow>
            run_ends h cfg w (Inl e) [Export, Translate, Load] wc)
        \<and> (clickhouse_get_client h w3 = (Inr (), wc) \<longrightarrow>
         (create_table h (destination_table_name cfg) cols (index cfg) True wc = (Inl e, w4) \<longrightarrow>
             run_ends h cfg w (Inl e) [Export, Translate, Load, Load] w4)
         \<and> (create_table h (destination_table_name cfg) cols (index cfg) True wc = (Inr (), w4) \<longrightarrow>
          (create_table h (temp_dest_of (destination_table_name cfg) (sync_id cfg)) cols (index cfg) False w4 = (Inl e, w5) \<longrightarrow>
              run_ends h cfg w (Inl e) [Export, Translate, Load, Load, Load] w5)
          \<and> (create_table h (temp_dest_of (destination_table_name cfg) (sync_id cfg)) cols (index cfg) False w4 = (Inr (), w5) \<longrightarrow>
           (import_data h (temp_dest_of (destination_table_name cfg) (sync_id cfg)) url w5 = (Inl e, w6) \<longrightarrow>
               run_ends h cfg w (Inl e) [Export, Translate, Load, Load, Load, Load] w6)
           \<and> (import_data h (temp_dest_of (destination_table_name cfg) (sync_id cfg)) url w5 = (Inr (), w6) \<longrightarrow>
            (drop_table h (destination_table_name cfg) w6 = (Inl e, w7) \<longrightarrow>
                run_ends h cfg w (Inl e) [Export, Translate, Load, Load, Load, Load, Swap] w7)
            \<and> (drop_table h (destination_table_name cfg) w6 = (Inr (), w7) \<longrightarrow>
             (rename_table h (temp_dest_of (destination_table_name cfg) (sync_id cfg)) (destination_table_name cfg) w7 = (Inl e, w8) \<longrightarrow>
                 run_ends h cfg w (Inl e) [Export, Translate, Load, Load, Load, Load, Swap, Swap] w8)
             \<and> (rename_table h (temp_dest_of (destination_table_name cfg) (sync_id cfg)) (destination_table_name cfg) w7 = (Inr (), w8) \<longrightarrow>
              (gcs_get_client h w8 = (Inl e, wg) \<longrightarrow>
                  run_ends h cfg w (Inl e) [Export, Translate, Load, Load, Load, Load, Swap, Swap] wg)
              \<and> (gcs_get_client h w8 = (Inr (), wg) \<longrightarrow>
               (batch_delete_folder h (staging_bucket cfg) (gcs_relative_dir_of cfg) wg = (Inl e, w9) \<longrightarrow>
                   run_ends h cfg w (Inl e) [Export, Translate, Load, Load, Load, Load, Swap, Swap, Cleanup] w9)
               \<and> (batch_delete_folder h (staging_bucket cfg) (gcs_relative_dir_of cfg) wg = (Inr (), w9) \<longrightarrow>
                run_ends h cfg w
                  (Inr \<lparr>success = True, asset = asset_name cfg, gcs_glob = glob,
                        clickhouse_temp_table = temp_dest_of (destination_table_name cfg) (sync_id cfg)\<rparr>)
                  [Export, Translate, Load, Load, Load, Load, Swap, Swap, Cleanup] w9)))))))))))))"
  by (cases rule: run_cases[where h=h and cfg=cfg and w=w])
     (auto simp add: run_simps run_ends_def stages_of_run_def)

theorem run_stage_order_witness:
  "(\<exists>x \<in> set (run_calls (sim_helpers import_faults) job flat_world). \<not> snd x)
   \<and> isl (run_result (sim_helpers import_faults) job flat_world)
   \<and> prefix (stages_of_run (run_calls (sim_helpers import_faults) job flat_world))
        [Export, Translate, Load, Load, Load, Load, Swap, Swap, Cleanup]
   \<and> list_all snd (butlast (run_calls (sim_helpers import_faults) job flat_world))
   \<and> \<not> isl (run_result (sim_helpers no_faults) job flat_world)
   \<and> length (run_calls (sim_helpers no_faults) job flat_world) = 9
   \<and> list_all snd (run_calls (sim_helpers no_faults) job flat_world)
   \<and> columns_loop (bq_schema nested_world) [] =
       Inl (UnsupportedTableColumn (unsupported_message ''tags'' ''RECORD''))
   \<and> run_ends (sim_helpers no_faults) job nested_world
        (Inl (UnsupportedTableColumn (unsupported_message ''tags'' ''RECORD'')))
        [Export, Translate] (nested_world\<lparr>gcs_objects := [''gs://b/bq2clickhouse/s-1/ev/000000000000.parquet'']\<rparr>)
   \<and> run_ends (sim_helpers no_faults) job flat_world
        (Inr \<lparr>success = True, asset = ''a'', gcs_glob = ''gs://b/bq2clickhouse/s-1/ev/*.parquet'',
            clickhouse_temp_table = ''ev_s_1''\<rparr>)
        [Export, Translate, Load, Load, Load, Load, Swap, Swap, Cleanup] cleaned_world"
proof -
  have f: "\<exists>x \<in> set (run_calls (sim_helpers import_faults) job flat_world). \<not> snd x"
    by (simp add: run_calls_def import_fault_run)
  have s: "\<not> isl (run_result (sim_helpers no_faults) job flat_world)"
    by (simp add: run_result_def flat_run)
  have a: "prefix (stages_of_run (run_calls (sim_helpers import_faults) job flat_world))
        [Export, Translate, Load, Load, Load, Load, Swap, Swap, Cleanup]
   \<and> list_all snd (butlast (run_calls (sim_helpers import_faults) job flat_world))
   \<and> isl (run_result (sim_helpers import_faults) job flat_world)"
  proof -
    note t = run_stage_order [where h = "sim_helpers import_faults" and cfg = job and w = flat_world]
    from f t [THEN conjunct2, THEN conjunct2, THEN conjunct2, THEN conjunct1]
    have "isl (run_result (sim_helpers import_faults) job flat_world)"
      by blast
    with t [THEN conjunct1] t [THEN conjunct2, THEN conjunct2, THEN conjunct1]
    show ?thesis
      by (simp add: list_all_iff)
  qed
  have b: "length (run_calls (sim_helpers no_faults) job flat_world) = 9
   \<and> list_all snd (run_calls (sim_helpers no_faults) job flat_world)"
    using s run_stage_order [where h = "sim_helpers no_faults" and cfg = job and w = flat_world,
        THEN conjunct2, THEN conjunct2, THEN conjunct2, THEN conjunct2, THEN conjunct1]
    by (simp add: list_all_iff)
  have n: "run_ends (sim_helpers no_faults) job nested_world
        (Inl (UnsupportedTableColumn (unsupported_message ''tags'' ''RECORD'')))
        [Export, Translate] (nested_world\<lparr>gcs_objects := [''gs://b/bq2clickhouse/s-1/ev/000000000000.parquet'']\<rparr>)"
    using run_stage_order [where h = "sim_helpers no_faults" and cfg = job and w = nested_world
        and wb = nested_world and glob = "''gs://b/bq2clickhouse/s-1/ev/*.parquet''"
        and ?w1.0 = "nested_world\<lparr>gcs_objects := [''gs://b/bq2clickhouse/s-1/ev/000000000000.parquet'']\<rparr>" and schema = "bq_schema nested_world"
        and ?w2.0 = "nested_world\<lparr>gcs_objects := [''gs://b/bq2clickhouse/s-1/ev/000000000000.parquet'']\<rparr>"
        and e = "UnsupportedTableColumn (unsupported_message ''tags'' ''RECORD'')",
        THEN conjunct2, THEN conjunct2, THEN conjunct2, THEN conjunct2, THEN conjunct2]
      sim_clients(1)[of no_faults nested_world] nested_export
      sim_get_table_job[of "nested_world\<lparr>gcs_objects := [''gs://b/bq2clickhouse/s-1/ev/000000000000.parquet'']\<rparr>"] nested_columns
    by simp
  have h: "run_ends (sim_helpers no_faults) job flat_world
        (Inr \<lparr>success = True, asset = ''a'', gcs_glob = ''gs://b/bq2clickhouse/s-1/ev/*.parquet'',
            clickhouse_temp_table = ''ev_s_1''\<rparr>)
        [Export, Translate, Load, Load, Load, Load, Swap, Swap, Cleanup] cleaned_world"
    using run_stage_order [where h = "sim_helpers no_faults" and cfg = job and w = flat_world
        and wb = flat_world and glob = "''gs://b/bq2clickhouse/s-1/ev/*.parquet''"
        and ?w1.0 = staged_world and schema = "bq_schema flat_world" and ?w2.0 = staged_world
        and cols = "[(''id'', ''Int64''), (''name'', ''String'')]"
        and url = "''https://storage.googleapis.com/b/bq2clickhouse/s-1/ev/*.parquet''"
        and ?w3.0 = staged_world and wc = staged_world
        and ?w4.0 = ensured_world
        and ?w5.0 = created_world and ?w6.0 = loaded_world and ?w7.0 = dropped_world
        and ?w8.0 = renamed_world and wg = renamed_world and ?w9.0 = cleaned_world
        and e = "ExternalError []",
        THEN conjunct2, THEN conjunct2, THEN conjunct2, THEN conjunct2, THEN conjunct2]
      sim_clients(1)[of no_faults flat_world] flat_export flat_get_table flat_columns flat_url
      sim_clients(2)[of no_faults staged_world] job_chain sim_clients(3)[of no_faults renamed_world]
    by (simp add: job_simps)
  from f s a b n h nested_columns show ?thesis
    by blast
qed

text \<open>
  C9. In every run, a call of \<^verbatim>\<open>batch_delete_folder\<close> is the call on the job's bucket
  and directory, and it comes right after the drop of the live table and the rename of the
  staging table, both of which returned, as did every call before them. A run that fails
  anywhere but in the cleanup itself makes no cleanup call, so the staged objects are kept.
\<close>

theorem cleanup_only_after_swap:
  "(\<forall>c ok. is_cleanup_call c \<and> (c, ok) \<in> set (run_calls h cfg w) \<longrightarrow>
       c = BatchDeleteFolder (staging_bucket cfg) (gcs_relative_dir_of cfg)
       \<and> (\<exists>pre. run_calls h cfg w =
              pre @ [(DropTable (destination_table_name cfg), True),
                     (RenameTable (temp_dest_of (destination_table_name cfg) (sync_id cfg)) (destination_table_name cfg), True),
                     (c, ok)]
            \<and> (\<forall>x \<in> set pre. snd x \<and> \<not> is_cleanup_call (fst x))))
   \<and> (isl (run_result h cfg w) \<and> (\<forall>x \<in> set (run_calls h cfg w). is_cleanup_call (fst x) \<longrightarrow> snd x) \<longrightarrow>
        (\<forall>x \<in> set (run_calls h cfg w). \<not> is_cleanup_call (fst x)))"
  by (cases rule: run_cases[where h=h and cfg=cfg and w=w]) (auto simp add: run_simps)

theorem cleanup_only_after_swap_witness:
  "is_cleanup_call (BatchDeleteFolder ''b'' ''bq2clickhouse/s-1/ev'')
   \<and> (BatchDeleteFolder ''b'' ''bq2clickhouse/s-1/ev'', True) \<in> set (run_calls (sim_helpers no_faults) job flat_world)
   \<and> (\<exists>pre. run_calls (sim_helpers no_faults) job flat_world =
              pre @ [(DropTable ''ev'', True), (RenameTable ''ev_s_1'' ''ev'', True),
                     (BatchDeleteFolder ''b'' ''bq2clickhouse/s-1/ev'', True)]
            \<and> list_all (\<lambda>x. snd x \<and> \<not> is_cleanup_call (fst x)) pre)
   \<and> isl (run_result (sim_helpers rename_faults) job flat_world)
   \<and> list_all (\<lambda>x. is_cleanup_call (fst x) \<longrightarrow> snd x) (run_calls (sim_helpers rename_faults) job flat_world)
   \<and> list_all (\<lambda>x. \<not> is_cleanup_call (fst x)) (run_calls (sim_helpers rename_faults) job flat_world)"
proof -
  have m: "(BatchDeleteFolder ''b'' ''bq2clickhouse/s-1/ev'', True)
             \<in> set (run_calls (sim_helpers no_faults) job flat_world)"
    by (simp add: run_calls_def flat_run)
  have r: "isl (run_result (sim_helpers rename_faults) job flat_world)"
    by (simp add: run_result_def rename_fault_run)
  have n: "list_all (\<lambda>x. is_cleanup_call (fst x) \<longrightarrow> snd x) (run_calls (sim_helpers rename_faults) job flat_world)"
    by (simp add: run_calls_def rename_fault_run)
  from m cleanup_only_after_swap [of "sim_helpers no_faults" job flat_world]
  have p: "\<exists>pre. run_calls (sim_helpers no_faults) job flat_world =
              pre @ [(DropTable ''ev'', True), (RenameTable ''ev_s_1'' ''ev'', True),
                     (BatchDeleteFolder ''b'' ''bq2clickhouse/s-1/ev'', True)]
            \<and> list_all (\<lambda>x. snd x \<and> \<not> is_cleanup_call (fst x)) pre"
    by (simp add: job_simps list_all_iff)
  from r n cleanup_only_after_swap [of "sim_helpers rename_faults" job flat_world]
  have q: "list_all (\<lambda>x. \<not> is_cleanup_call (fst x)) (run_calls (sim_helpers rename_faults) job flat_world)"
    by (simp add: list_all_iff)
  from m r n p q show ?thesis
    by simp
qed




end
